theory Spec2Isabelle
  imports Main "HOL-Library.Word"
begin

unbundle bit_operations_syntax

section \<open>The geometry engine as the collection code sees it\<close>

text \<open>
  \<^verbatim>\<open>geometry_collection.c\<close> never looks inside a \<^verbatim>\<open>GEOSGeometry*\<close>; it only asks the
  engine three questions about a handle: its kind (\<^verbatim>\<open>GEOSGeomTypeId_r\<close>), its number of
  children (\<^verbatim>\<open>GEOSGetNumGeometries_r\<close>) and its child at an index
  (\<^verbatim>\<open>GEOSGetGeometryN_r\<close>). A geometry is therefore the tree of the engine's answers. The
  kind and the count are kept as the C \<^verbatim>\<open>int\<close> the engine returns, so that a negative
  answer (the engine's failure value) is a value of the model, and a child slot may hold
  \<open>None\<close>, the \<^verbatim>\<open>NULL\<close> the engine returns when a fetch fails, as does a fetch at an
  index that is no slot. The count is a field of its own: nothing in the code ties it to
  the number of children that can be fetched.
  The coordinate sequence is carried along for the collaborators that read it; no function
  of this file does.
\<close>

datatype GEOSGeometry =
  Geometry (type_id: int) (num_geometries: int)
           (sub_geometries: "GEOSGeometry option list") (coord_seq: "(int \<times> int) list")

text \<open>The values of \<^verbatim>\<open>enum GEOSGeomTypes\<close> in \<^verbatim>\<open>geos_c.h\<close>.\<close>

abbreviation (input) GEOS_POINT :: int where "GEOS_POINT \<equiv> 0"
abbreviation (input) GEOS_LINESTRING :: int where "GEOS_LINESTRING \<equiv> 1"
abbreviation (input) GEOS_LINEARRING :: int where "GEOS_LINEARRING \<equiv> 2"
abbreviation (input) GEOS_POLYGON :: int where "GEOS_POLYGON \<equiv> 3"
abbreviation (input) GEOS_MULTIPOINT :: int where "GEOS_MULTIPOINT \<equiv> 4"
abbreviation (input) GEOS_MULTILINESTRING :: int where "GEOS_MULTILINESTRING \<equiv> 5"
abbreviation (input) GEOS_MULTIPOLYGON :: int where "GEOS_MULTIPOLYGON \<equiv> 6"
abbreviation (input) GEOS_GEOMETRYCOLLECTION :: int where "GEOS_GEOMETRYCOLLECTION \<equiv> 7"

definition GEOSGeomTypeId_r :: "GEOSGeometry \<Rightarrow> int" where
  "GEOSGeomTypeId_r g = type_id g"

definition GEOSGetNumGeometries_r :: "GEOSGeometry \<Rightarrow> int" where
  "GEOSGetNumGeometries_r g = num_geometries g"

definition GEOSGetGeometryN_r :: "GEOSGeometry \<Rightarrow> int \<Rightarrow> GEOSGeometry option" where
  "GEOSGetGeometryN_r g n =
     (if 0 \<le> n \<and> n < int (length (sub_geometries g)) then sub_geometries g ! nat n
      else None)"

section \<open>Ruby values\<close>

text \<open>
  The Ruby values the code handles: \<^verbatim>\<open>nil\<close>, \<^verbatim>\<open>false\<close>, \<^verbatim>\<open>true\<close>, integers, classes
  and modules (by name), arrays, and objects the code only hands on to a collaborator.
  \<^verbatim>\<open>RTEST\<close> and \<^verbatim>\<open>NIL_P\<close> are the macros of \<^verbatim>\<open>ruby.h\<close>.
\<close>

datatype VALUE = Qnil | Qfalse | Qtrue | Fixnum int | Class string | Array "VALUE list"
  | Object nat

definition RTEST :: "VALUE \<Rightarrow> bool" where
  "RTEST v = (v \<noteq> Qnil \<and> v \<noteq> Qfalse)"

definition NIL_P :: "VALUE \<Rightarrow> bool" where
  "NIL_P v = (v = Qnil)"

datatype error = TypeError | RangeError

section \<open>Collaborators\<close>

text \<open>
  Functions of the repository and of the engine that \<^verbatim>\<open>geometry_collection.c\<close> calls and
  does not define. They are parameters of every function below. The engine context
  \<^verbatim>\<open>GEOSContextHandle_t\<close>, which every call passes on unchanged, is part of the record.
  \<^verbatim>\<open>GEOSRelatePattern_r\<close> returns a \<^verbatim>\<open>char\<close>; the code treats every non-zero answer as
  a problem. \<open>RGeo_GeometryData\<close> is the C struct behind a geometry object together with
  the Ruby class of the object (\<open>obj_class\<close>), which the two wrapping functions choose.
\<close>

record RGeo_Globals =
  feature_point :: VALUE
  feature_line_string :: VALUE
  feature_polygon :: VALUE

record RGeo_FactoryData =
  flags :: "32 word"
  globals :: RGeo_Globals

record RGeo_GeometryData =
  obj_class :: VALUE
  geom :: "GEOSGeometry option"
  factory :: RGeo_FactoryData
  klasses :: VALUE

record collaborators =
  rgeo_convert_to_detached_geos_geometry ::
    "VALUE \<Rightarrow> RGeo_FactoryData \<Rightarrow> VALUE \<Rightarrow> GEOSGeometry option \<times> VALUE"
  rgeo_wrap_geos_geometry :: "RGeo_FactoryData \<Rightarrow> GEOSGeometry \<Rightarrow> VALUE \<Rightarrow> RGeo_GeometryData"
  rgeo_wrap_geos_geometry_clone ::
    "RGeo_FactoryData \<Rightarrow> GEOSGeometry option \<Rightarrow> VALUE \<Rightarrow> RGeo_GeometryData option"
  rgeo_is_geos_line_string_closed :: "GEOSGeometry \<Rightarrow> VALUE"
  rgeo_geos_coordseqs_eql :: "GEOSGeometry \<Rightarrow> GEOSGeometry \<Rightarrow> 8 word \<Rightarrow> VALUE"
  rgeo_geos_polygons_eql :: "GEOSGeometry \<Rightarrow> GEOSGeometry \<Rightarrow> 8 word \<Rightarrow> VALUE"
  GEOSGeom_createCollection_r :: "int \<Rightarrow> GEOSGeometry list \<Rightarrow> GEOSGeometry option"
  GEOSRelatePattern_r :: "GEOSGeometry \<Rightarrow> GEOSGeometry \<Rightarrow> string \<Rightarrow> 8 word"

section \<open>Structural equality of collections\<close>

text \<open>
  \<^verbatim>\<open>rgeo_geos_geometry_collections_eql\<close> (lines 436-499). The \<^verbatim>\<open>for\<close> loop over the
  children is \<open>eql_children\<close>, which carries the loop index and the current value of
  \<^verbatim>\<open>result\<close>; the body of the loop, which computes the value assigned to \<^verbatim>\<open>result\<close> at
  index \<open>i\<close>, is \<open>eql_child\<close>. Every \<^verbatim>\<open>break\<close> of the body leaves the loop with a
  value that fails \<^verbatim>\<open>RTEST\<close>, so the loop tests the body's value once.
\<close>

function rgeo_geos_geometry_collections_eql ::
    "collaborators \<Rightarrow> GEOSGeometry option \<Rightarrow> GEOSGeometry option \<Rightarrow> 8 word \<Rightarrow> VALUE"
  and eql_children ::
    "collaborators \<Rightarrow> GEOSGeometry \<Rightarrow> GEOSGeometry \<Rightarrow> 8 word \<Rightarrow> int \<Rightarrow> int \<Rightarrow> VALUE \<Rightarrow> VALUE"
  and eql_child ::
    "collaborators \<Rightarrow> GEOSGeometry \<Rightarrow> GEOSGeometry \<Rightarrow> 8 word \<Rightarrow> int \<Rightarrow> VALUE"
where
  "rgeo_geos_geometry_collections_eql W geom1 geom2 check_z =
     (case geom1 of None \<Rightarrow> Qnil | Some g1 \<Rightarrow>
      (case geom2 of None \<Rightarrow> Qnil | Some g2 \<Rightarrow>
        (let len1 = GEOSGetNumGeometries_r g1; len2 = GEOSGetNumGeometries_r g2 in
         if len1 \<ge> 0 \<and> len2 \<ge> 0 then
           if len1 = len2 then eql_children W g1 g2 check_z 0 len1 Qtrue
           else Qfalse
         else Qnil)))"
| "eql_children W g1 g2 check_z i len1 result =
     (if i < len1 then
        (let result' = eql_child W g1 g2 check_z i in
         if \<not> RTEST result' then result'
         else eql_children W g1 g2 check_z (i + 1) len1 result')
      else result)"
| "eql_child W g1 g2 check_z i =
     (case GEOSGetGeometryN_r g1 i of None \<Rightarrow> Qnil | Some sub_geom1 \<Rightarrow>
      (case GEOSGetGeometryN_r g2 i of None \<Rightarrow> Qnil | Some sub_geom2 \<Rightarrow>
        (let type1 = GEOSGeomTypeId_r sub_geom1; type2 = GEOSGeomTypeId_r sub_geom2 in
         if type1 \<ge> 0 \<and> type2 \<ge> 0 then
           if type1 = type2 then
             (if type1 = GEOS_POINT \<or> type1 = GEOS_LINESTRING \<or> type1 = GEOS_LINEARRING then
                rgeo_geos_coordseqs_eql W sub_geom1 sub_geom2 check_z
              else if type1 = GEOS_POLYGON then
                rgeo_geos_polygons_eql W sub_geom1 sub_geom2 check_z
              else if type1 = GEOS_GEOMETRYCOLLECTION \<or> type1 = GEOS_MULTIPOINT
                      \<or> type1 = GEOS_MULTILINESTRING \<or> type1 = GEOS_MULTIPOLYGON then
                rgeo_geos_geometry_collections_eql W (Some sub_geom1) (Some sub_geom2) check_z
              else Qnil)
           else Qfalse
         else Qnil)))"
  by pat_completeness auto
termination
proof (relation "inv_image (less_than <*lex*> less_than)
       (\<lambda>x. case x of
          Inl (W, geom1, geom2, check_z) \<Rightarrow>
            (case geom1 of None \<Rightarrow> (0, 0)
             | Some g1 \<Rightarrow> (size g1, nat (GEOSGetNumGeometries_r g1) + 2))
        | Inr (Inl (W, g1, g2, check_z, i, len1, result)) \<Rightarrow> (size g1, nat (len1 - i) + 1)
        | Inr (Inr (W, g1, g2, check_z, i)) \<Rightarrow> (size g1, 0))", goal_cases)
  case 1
  show ?case by auto
next
  case 2
  then show ?case by simp
next
  case 3
  then show ?case by simp
next
  case 4
  then show ?case by simp
next
  case (5 W g1 g2 check_z i s1 s2 type1 type2)
  from 5(1) have n: "nat i < length (sub_geometries g1)"
    and s: "sub_geometries g1 ! nat i = Some s1"
    by (auto simp: GEOSGetGeometryN_r_def split: if_splits)
  from n s have "Some s1 \<in> set (sub_geometries g1)"
    by (metis nth_mem)
  then have "size s1 < size_list (size_option size) (sub_geometries g1)"
    by (rule size_list_estimation) simp
  then have "size s1 < size g1"
    by (cases g1) simp
  then show ?case by simp
qed

section \<open>Ruby array and integer primitives\<close>

text \<open>
  \<^verbatim>\<open>rb_ary_entry\<close> reads an array slot, counting a negative offset from the end, and
  gives \<^verbatim>\<open>nil\<close> outside the array; \<^verbatim>\<open>rb_ary_push\<close> appends. The code applies both
  to arrays only; on any other value the model leaves \<^verbatim>\<open>rb_ary_push\<close> without effect
  and lets \<^verbatim>\<open>rb_ary_entry\<close> answer \<^verbatim>\<open>nil\<close>. \<^verbatim>\<open>Check_Type(array, T_ARRAY)\<close>
  raises \<^verbatim>\<open>TypeError\<close> on a value that is not an array. \<^verbatim>\<open>NUM2INT\<close> raises
  \<^verbatim>\<open>RangeError\<close> on an integer outside the range of a C \<^verbatim>\<open>int\<close> and
  \<^verbatim>\<open>TypeError\<close> on a value that is not a number.
\<close>

fun rb_ary_entry :: "VALUE \<Rightarrow> int \<Rightarrow> VALUE" where
  "rb_ary_entry (Array xs) offset =
     (let offset' = (if offset < 0 then offset + int (length xs) else offset)
      in if 0 \<le> offset' \<and> offset' < int (length xs) then xs ! nat offset' else Qnil)"
| "rb_ary_entry v offset = Qnil"

fun rb_ary_push :: "VALUE \<Rightarrow> VALUE \<Rightarrow> VALUE" where
  "rb_ary_push (Array xs) item = Array (xs @ [item])"
| "rb_ary_push v item = v"

fun RARRAY_LEN :: "VALUE \<Rightarrow> nat" where
  "RARRAY_LEN (Array xs) = length xs"
| "RARRAY_LEN v = 0"

fun Check_Type_T_ARRAY :: "VALUE \<Rightarrow> error + unit" where
  "Check_Type_T_ARRAY (Array xs) = Inr ()"
| "Check_Type_T_ARRAY v = Inl TypeError"

fun NUM2INT :: "VALUE \<Rightarrow> error + int" where
  "NUM2INT (Fixnum k) =
     (if - (2 ^ 31) \<le> k \<and> k < 2 ^ 31 then Inr k else Inl RangeError)"
| "NUM2INT v = Inl TypeError"

section \<open>Construction\<close>

text \<open>
  The engine calls of \<^verbatim>\<open>create_geometry_collection\<close> that change or query the engine's
  state, in the order the function makes them. The function returns this trace next to
  its result, so that what was destroyed, and which pairs were related in which order, can
  be read off.
\<close>

datatype engine_call =
    CreateCollection int "GEOSGeometry list"
  | RelatePattern GEOSGeometry GEOSGeometry string
  | Destroy GEOSGeometry

text \<open>
  The backfill loop of lines 92-94: \<open>j\<close> pushes of \<^verbatim>\<open>nil\<close>.
\<close>

fun push_nils :: "nat \<Rightarrow> VALUE \<Rightarrow> VALUE" where
  "push_nils 0 ks = ks"
| "push_nils (Suc j) ks = push_nils j (rb_ary_push ks Qnil)"

text \<open>
  The switch of lines 73-83: the feature type the elements are cast to.
\<close>

definition cast_type_of :: "int \<Rightarrow> RGeo_FactoryData \<Rightarrow> VALUE" where
  "cast_type_of type fac =
     (if type = GEOS_MULTIPOINT then feature_point (globals fac)
      else if type = GEOS_MULTILINESTRING then feature_line_string (globals fac)
      else if type = GEOS_MULTIPOLYGON then feature_polygon (globals fac)
      else Qnil)"

text \<open>
  Lines 90-98: what iteration \<open>i\<close> of the conversion loop does to the tag array
  \<^verbatim>\<open>klasses\<close> (\<open>ks\<close>) once element \<open>i\<close> has converted with tag \<^verbatim>\<open>klass\<close>.
  \<^verbatim>\<open>rb_ary_new2(len)\<close> is an empty array (\<^verbatim>\<open>len\<close> is its capacity only).
\<close>

definition store_klass :: "nat \<Rightarrow> VALUE \<Rightarrow> VALUE \<Rightarrow> VALUE" where
  "store_klass i ks klass =
     (let ks' = (if \<not> NIL_P klass \<and> NIL_P ks then push_nils i (Array []) else ks)
      in if \<not> NIL_P ks' then rb_ary_push ks' klass else ks')"

text \<open>
  The conversion loop of lines 84-99, from index \<open>i\<close> on (\<open>fac\<close>, \<open>g\<close> and \<open>ks\<close> are the
  source's \<^verbatim>\<open>factory\<close>, \<^verbatim>\<open>geom\<close> and \<^verbatim>\<open>klasses\<close>, names the records use). \<open>geoms\<close>
  is the part of the buffer written so far, slots \<open>0..i-1\<close>, so that
  \<^verbatim>\<open>geoms[i] = geom\<close> appends. The loop returns the index at which it stopped, the
  buffer and the tag array.
\<close>

function convert_elements ::
  "collaborators \<Rightarrow> RGeo_FactoryData \<Rightarrow> VALUE \<Rightarrow> VALUE \<Rightarrow> nat \<Rightarrow> nat \<Rightarrow> GEOSGeometry list
     \<Rightarrow> VALUE \<Rightarrow> nat \<times> GEOSGeometry list \<times> VALUE"
where
  "convert_elements W fac cast_type array len i geoms ks =
     (if i < len then
        (case rgeo_convert_to_detached_geos_geometry W (rb_ary_entry array (int i))
                fac cast_type of
           (None, klass) \<Rightarrow> (i, geoms, ks)
         | (Some g, klass) \<Rightarrow>
             convert_elements W fac cast_type array len (i + 1) (geoms @ [g])
               (store_klass i ks klass))
      else (i, geoms, ks))"
  by pat_completeness auto
termination
  by (relation "measure (\<lambda>(W, fac, cast_type, array, len, i, geoms, ks). len - i)")
     auto

text \<open>
  The pairwise check of lines 110-127: the inner loop over \<open>j < i\<close> and the outer loop
  over \<open>i < len\<close>, each returning the final value of \<^verbatim>\<open>problem\<close> and the
  \<^verbatim>\<open>GEOSRelatePattern_r\<close> calls it made.
\<close>

function check_pairs_inner ::
  "collaborators \<Rightarrow> GEOSGeometry list \<Rightarrow> nat \<Rightarrow> nat \<Rightarrow> 8 word \<times> engine_call list"
where
  "check_pairs_inner W geoms i j =
     (if j < i then
        (let igeom = geoms ! i;
             jgeom = geoms ! j;
             problem = GEOSRelatePattern_r W igeom jgeom ''2********''
         in if problem \<noteq> 0 then (problem, [RelatePattern igeom jgeom ''2********''])
            else
              (let problem' = GEOSRelatePattern_r W igeom jgeom ''****1****''
               in if problem' \<noteq> 0 then
                    (problem', [RelatePattern igeom jgeom ''2********'',
                                RelatePattern igeom jgeom ''****1****''])
                  else
                    (case check_pairs_inner W geoms i (j + 1) of
                       (problem'', calls) \<Rightarrow>
                         (problem'', [RelatePattern igeom jgeom ''2********'',
                                      RelatePattern igeom jgeom ''****1****''] @ calls))))
      else (0, []))"
  by pat_completeness auto
termination
  by (relation "measure (\<lambda>(W, geoms, i, j). i - j)") auto

function check_pairs ::
  "collaborators \<Rightarrow> GEOSGeometry list \<Rightarrow> nat \<Rightarrow> nat \<Rightarrow> 8 word \<times> engine_call list"
where
  "check_pairs W geoms len i =
     (if i < len then
        (case check_pairs_inner W geoms i 0 of
           (problem, calls) \<Rightarrow>
             if problem \<noteq> 0 then (problem, calls)
             else
               (case check_pairs W geoms len (i + 1) of
                  (problem', calls') \<Rightarrow> (problem', calls @ calls')))
      else (0, []))"
  by pat_completeness auto
termination
  by (relation "measure (\<lambda>(W, geoms, len, i). len - i)") auto

text \<open>
  \<^verbatim>\<open>create_geometry_collection\<close> (lines 60-146). \<^verbatim>\<open>len\<close> is the array length cast to
  \<^verbatim>\<open>unsigned int\<close>. \<^verbatim>\<open>ALLOC_N\<close> raises rather than return \<^verbatim>\<open>NULL\<close>, so the test
  of \<^verbatim>\<open>geoms\<close> always succeeds. The result is the function's \<^verbatim>\<open>VALUE\<close>, \<open>None\<close>
  for \<^verbatim>\<open>Qnil\<close>, and the trace of engine calls.
\<close>

definition create_geometry_collection ::
  "collaborators \<Rightarrow> VALUE \<Rightarrow> int \<Rightarrow> RGeo_FactoryData \<Rightarrow> VALUE
     \<Rightarrow> error + (RGeo_GeometryData option \<times> engine_call list)"
where
  "create_geometry_collection W module type fac array =
     (case Check_Type_T_ARRAY array of
        Inl e \<Rightarrow> Inl e
      | Inr u \<Rightarrow>
          (let len = RARRAY_LEN array mod 2 ^ 32;
               cast_type = cast_type_of type fac
           in case convert_elements W fac cast_type array len 0 [] Qnil of
                (i, geoms, ks) \<Rightarrow>
                  if i \<noteq> len then Inr (None, map (\<lambda>j. Destroy (geoms ! j)) [0..<i])
                  else
                    (case GEOSGeom_createCollection_r W type geoms of
                       None \<Rightarrow> Inr (None, [CreateCollection type geoms])
                     | Some collection \<Rightarrow>
                         if type = GEOS_MULTIPOLYGON \<and> flags fac AND 1 = 0 then
                           (case check_pairs W geoms len 1 of
                              (problem, calls) \<Rightarrow>
                                if problem \<noteq> 0 then
                                  Inr (None, CreateCollection type geoms # calls
                                               @ [Destroy collection])
                                else
                                  Inr (Some ((rgeo_wrap_geos_geometry W fac collection
                                                module)\<lparr>klasses := ks\<rparr>),
                                       CreateCollection type geoms # calls))
                         else
                           Inr (Some ((rgeo_wrap_geos_geometry W fac collection
                                         module)\<lparr>klasses := ks\<rparr>),
                                [CreateCollection type geoms]))))"

definition cmethod_multi_polygon_create ::
  "collaborators \<Rightarrow> VALUE \<Rightarrow> RGeo_FactoryData \<Rightarrow> VALUE
     \<Rightarrow> error + (RGeo_GeometryData option \<times> engine_call list)"
where
  "cmethod_multi_polygon_create W module fac array =
     create_geometry_collection W module GEOS_MULTIPOLYGON fac array"

section \<open>Accessors\<close>

text \<open>
  \<^verbatim>\<open>impl_geometry_n\<close> (lines 186-208). \<^verbatim>\<open>allow_negatives\<close> is a \<^verbatim>\<open>char\<close>. The sum
  \<^verbatim>\<open>i += len\<close> is taken when \<open>i\<close> is negative, so it cannot overflow for a count that
  is not negative.
\<close>

definition impl_geometry_n ::
  "collaborators \<Rightarrow> RGeo_GeometryData \<Rightarrow> VALUE \<Rightarrow> 8 word \<Rightarrow> error + RGeo_GeometryData option"
where
  "impl_geometry_n W self n allow_negatives =
     (case geom self of
        None \<Rightarrow> Inr None
      | Some self_geom \<Rightarrow>
          (case NUM2INT n of
             Inl e \<Rightarrow> Inl e
           | Inr i \<Rightarrow>
               if allow_negatives \<noteq> 0 \<or> i \<ge> 0 then
                 (let len = GEOSGetNumGeometries_r self_geom;
                      i' = (if i < 0 then i + len else i)
                  in if i' \<ge> 0 \<and> i' < len then
                       Inr (rgeo_wrap_geos_geometry_clone W (factory self)
                              (GEOSGetGeometryN_r self_geom i')
                              (if NIL_P (klasses self) then Qnil
                               else rb_ary_entry (klasses self) i'))
                     else Inr None)
               else Inr None))"

text \<open>
  The two Ruby methods (lines 211-220). The body of each is the single statement
  \<^verbatim>\<open>impl_geometry_n(self, n, 0);\<close> (respectively \<^verbatim>\<open>1\<close>): the call is evaluated, so an
  exception raised in it propagates, its value is dropped, and control reaches the closing
  brace of a function declared to return \<^verbatim>\<open>VALUE\<close> without a \<^verbatim>\<open>return\<close> statement.
  \<open>No_return_value\<close> records that C defines no value for such a call.
\<close>

datatype 'a c_return = Return 'a | No_return_value

definition method_geometry_collection_geometry_n ::
  "collaborators \<Rightarrow> RGeo_GeometryData \<Rightarrow> VALUE \<Rightarrow> error + RGeo_GeometryData option c_return"
where
  "method_geometry_collection_geometry_n W self n =
     (case impl_geometry_n W self n 0 of
        Inl e \<Rightarrow> Inl e
      | Inr result \<Rightarrow> Inr No_return_value)"

definition method_geometry_collection_brackets ::
  "collaborators \<Rightarrow> RGeo_GeometryData \<Rightarrow> VALUE \<Rightarrow> error + RGeo_GeometryData option c_return"
where
  "method_geometry_collection_brackets W self n =
     (case impl_geometry_n W self n 1 of
        Inl e \<Rightarrow> Inl e
      | Inr result \<Rightarrow> Inr No_return_value)"

text \<open>
  \<^verbatim>\<open>method_geometry_collection_each\<close> (lines 223-244). The block given to the method is
  \<open>rb_yield\<close>: it receives the element and the caller's state and either returns the new
  state or leaves the method non-locally (\<open>Inl\<close>: an exception, \<^verbatim>\<open>break\<close> or
  \<^verbatim>\<open>throw\<close>), which ends the loop. The method returns \<^verbatim>\<open>self\<close>.
\<close>

function each_loop ::
  "collaborators \<Rightarrow> (RGeo_GeometryData \<Rightarrow> 's \<Rightarrow> 'e + 's) \<Rightarrow> RGeo_GeometryData \<Rightarrow> GEOSGeometry
     \<Rightarrow> int \<Rightarrow> int \<Rightarrow> 's \<Rightarrow> 'e + 's"
where
  "each_loop W rb_yield self self_geom i len s =
     (if i < len then
        (let elem_geom = GEOSGetGeometryN_r self_geom i;
             elem = rgeo_wrap_geos_geometry_clone W (factory self) elem_geom
                      (if NIL_P (klasses self) then Qnil else rb_ary_entry (klasses self) i)
         in case elem of
              None \<Rightarrow> each_loop W rb_yield self self_geom (i + 1) len s
            | Some e \<Rightarrow>
                (case rb_yield e s of
                   Inl x \<Rightarrow> Inl x
                 | Inr s' \<Rightarrow> each_loop W rb_yield self self_geom (i + 1) len s'))
      else Inr s)"
  by pat_completeness auto
termination
  by (relation "measure (\<lambda>(W, rb_yield, self, self_geom, i, len, s). nat (len - i))") auto

definition method_geometry_collection_each ::
  "collaborators \<Rightarrow> (RGeo_GeometryData \<Rightarrow> 's \<Rightarrow> 'e + 's) \<Rightarrow> RGeo_GeometryData \<Rightarrow> 's
     \<Rightarrow> 'e + (RGeo_GeometryData \<times> 's)"
where
  "method_geometry_collection_each W rb_yield self s =
     (case geom self of
        None \<Rightarrow> Inr (self, s)
      | Some self_geom \<Rightarrow>
          (let len = GEOSGetNumGeometries_r self_geom
           in if len > 0 then
                (case each_loop W rb_yield self self_geom 0 len s of
                   Inl x \<Rightarrow> Inl x
                 | Inr s' \<Rightarrow> Inr (self, s'))
              else Inr (self, s)))"

section \<open>Closedness of a MultiLineString\<close>

text \<open>
  \<^verbatim>\<open>method_multi_line_string_is_closed\<close> (lines 284-307). Line 298 passes
  \<^verbatim>\<open>self_geom\<close>, the collection, to \<^verbatim>\<open>rgeo_is_geos_line_string_closed\<close>; the child
  \<^verbatim>\<open>geom\<close> fetched on line 296 (\<open>g\<close> below) is only tested against \<^verbatim>\<open>NULL\<close>.
\<close>

function is_closed_loop ::
  "collaborators \<Rightarrow> GEOSGeometry \<Rightarrow> int \<Rightarrow> int \<Rightarrow> VALUE \<Rightarrow> VALUE"
where
  "is_closed_loop W self_geom i len result =
     (if i < len then
        (case GEOSGetGeometryN_r self_geom i of
           None \<Rightarrow> is_closed_loop W self_geom (i + 1) len result
         | Some g \<Rightarrow>
             (let result' = rgeo_is_geos_line_string_closed W self_geom
              in if result' \<noteq> Qtrue then result'
                 else is_closed_loop W self_geom (i + 1) len result'))
      else result)"
  by pat_completeness auto
termination
  by (relation "measure (\<lambda>(W, self_geom, i, len, result). nat (len - i))") auto

definition method_multi_line_string_is_closed ::
  "collaborators \<Rightarrow> RGeo_GeometryData \<Rightarrow> VALUE"
where
  "method_multi_line_string_is_closed W self =
     (case geom self of
        None \<Rightarrow> Qnil
      | Some self_geom \<Rightarrow>
          (let len = GEOSGetNumGeometries_r self_geom
           in if len > 0 then is_closed_loop W self_geom 0 len Qtrue else Qtrue))"

declare rgeo_geos_geometry_collections_eql.simps [simp del]
declare eql_children.simps [simp del]
declare eql_child.simps [simp del]
declare convert_elements.simps [simp del]
declare check_pairs_inner.simps [simp del]
declare check_pairs.simps [simp del]
declare each_loop.simps [simp del]
declare is_closed_loop.simps [simp del]

section \<open>Notions used in the statements\<close>

text \<open>
  The per-kind comparators are three-valued when they answer \<^verbatim>\<open>true\<close>, \<^verbatim>\<open>false\<close> or
  \<^verbatim>\<open>nil\<close> only.
\<close>

definition three_valued :: "collaborators \<Rightarrow> bool" where
  "three_valued W =
     (\<forall>a b z. rgeo_geos_coordseqs_eql W a b z \<in> {Qtrue, Qfalse, Qnil}
            \<and> rgeo_geos_polygons_eql W a b z \<in> {Qtrue, Qfalse, Qnil})"

text \<open>
  The outcome of converting element \<open>j\<close> of the array for a collection of kind
  \<open>type\<close>: the call the conversion loop makes at index \<open>j\<close>.
\<close>

definition converted ::
  "collaborators \<Rightarrow> RGeo_FactoryData \<Rightarrow> int \<Rightarrow> VALUE \<Rightarrow> nat \<Rightarrow> GEOSGeometry option \<times> VALUE"
where
  "converted W fac type array j =
     rgeo_convert_to_detached_geos_geometry W (rb_ary_entry array (int j)) fac
       (cast_type_of type fac)"

text \<open>
  The sparse representation of a sequence of subtype tags: no array at all when every tag
  is \<^verbatim>\<open>nil\<close>, the array of the tags otherwise.
\<close>

definition tag_array :: "VALUE list \<Rightarrow> VALUE" where
  "tag_array ts = (if \<forall>t \<in> set ts. t = Qnil then Qnil else Array ts)"

text \<open>
  The two \<^verbatim>\<open>GEOSRelatePattern_r\<close> calls of the pair \<open>(i, j)\<close>, and all the calls of the
  pairwise check when nothing stops it: the pairs \<open>j < i\<close> by ascending \<open>i\<close>, then
  ascending \<open>j\<close>. A call reports a problem when the engine's answer is not zero.
  \<open>up_to_first P xs\<close> is \<open>xs\<close> cut after its first element that satisfies \<open>P\<close>.
\<close>

definition pair_calls :: "GEOSGeometry list \<Rightarrow> nat \<Rightarrow> nat \<Rightarrow> engine_call list" where
  "pair_calls geoms i j =
     [RelatePattern (geoms ! i) (geoms ! j) ''2********'',
      RelatePattern (geoms ! i) (geoms ! j) ''****1****'']"

definition all_pair_calls :: "GEOSGeometry list \<Rightarrow> engine_call list" where
  "all_pair_calls geoms =
     concat (map (\<lambda>i. concat (map (pair_calls geoms i) [0..<i])) [1..<length geoms])"

fun reports_problem :: "collaborators \<Rightarrow> engine_call \<Rightarrow> bool" where
  "reports_problem W (RelatePattern a b p) = (GEOSRelatePattern_r W a b p \<noteq> 0)"
| "reports_problem W c = False"

definition up_to_first :: "('a \<Rightarrow> bool) \<Rightarrow> 'a list \<Rightarrow> 'a list" where
  "up_to_first P xs = takeWhile (\<lambda>x. \<not> P x) xs @ take 1 (dropWhile (\<lambda>x. \<not> P x) xs)"

definition violation :: "collaborators \<Rightarrow> GEOSGeometry list \<Rightarrow> bool" where
  "violation W geoms =
     (\<exists>i<length geoms. \<exists>j<i.
        GEOSRelatePattern_r W (geoms ! i) (geoms ! j) ''2********'' \<noteq> 0
      \<or> GEOSRelatePattern_r W (geoms ! i) (geoms ! j) ''****1****'' \<noteq> 0)"

text \<open>
  A constructor call produced a collection when it returned normally with an object, not
  \<^verbatim>\<open>nil\<close>.
\<close>

definition constructed :: "error + (RGeo_GeometryData option \<times> engine_call list) \<Rightarrow> bool" where
  "constructed r = (case r of Inr (Some obj, calls) \<Rightarrow> True | _ \<Rightarrow> False)"

text \<open>
  The clone of child \<open>i\<close> as the accessors request it (lines 201-203 and 235-236): the
  child fetched at \<open>i\<close>, wrapped with the tag stored at \<open>i\<close>, or with \<^verbatim>\<open>nil\<close> when the
  collection has no tag array.
\<close>

definition clone_at ::
  "collaborators \<Rightarrow> RGeo_GeometryData \<Rightarrow> GEOSGeometry \<Rightarrow> int \<Rightarrow> RGeo_GeometryData option"
where
  "clone_at W self self_geom i =
     rgeo_wrap_geos_geometry_clone W (factory self) (GEOSGetGeometryN_r self_geom i)
       (if NIL_P (klasses self) then Qnil else rb_ary_entry (klasses self) i)"

text \<open>
  Passing a list of elements to a block in order, stopping when the block leaves
  non-locally.
\<close>

fun visit_all :: "('a \<Rightarrow> 's \<Rightarrow> 'e + 's) \<Rightarrow> 'a list \<Rightarrow> 's \<Rightarrow> 'e + 's" where
  "visit_all rb_yield [] s = Inr s"
| "visit_all rb_yield (e # es) s =
     (case rb_yield e s of Inl x \<Rightarrow> Inl x | Inr s' \<Rightarrow> visit_all rb_yield es s')"

text \<open>A block that records the elements it is given, in order, and never leaves.\<close>

definition record_visit :: "'a \<Rightarrow> 'a list \<Rightarrow> unit + 'a list" where
  "record_visit e visited = Inr (visited @ [e])"

section \<open>A sample engine\<close>

text \<open>
  Concrete collaborators for the closed statements below. The polygons of the sample
  engine are the unit squares of the integer grid, named by their lower left corner. A
  caller element \<open>Array [Fixnum x, Fixnum y]\<close> converts to the square at \<open>(x, y)\<close>
  without a subtype tag, \<open>Array [Fixnum x, Fixnum y, Class c]\<close> converts to it with
  the tag \<open>Class c\<close>, and nothing else converts. Two such squares are equal, share an
  edge, share a corner or are disjoint; \<open>unit_square_relate\<close> is their DE-9IM matrix
  in each case, and a pattern matches the matrix position by position (\<open>*\<close> matches
  anything, \<open>T\<close> anything but \<open>F\<close>).
\<close>

definition unit_square :: "int \<Rightarrow> int \<Rightarrow> GEOSGeometry" where
  "unit_square x y =
     Geometry GEOS_POLYGON 1 [] [(x, y), (x + 1, y), (x + 1, y + 1), (x, y + 1), (x, y)]"

fun sample_convert :: "VALUE \<Rightarrow> RGeo_FactoryData \<Rightarrow> VALUE \<Rightarrow> GEOSGeometry option \<times> VALUE" where
  "sample_convert (Array [Fixnum x, Fixnum y]) fac cast_type = (Some (unit_square x y), Qnil)"
| "sample_convert (Array [Fixnum x, Fixnum y, Class c]) fac cast_type =
     (Some (unit_square x y), Class c)"
| "sample_convert v fac cast_type = (None, Qnil)"

definition unit_square_relate :: "GEOSGeometry \<Rightarrow> GEOSGeometry \<Rightarrow> string" where
  "unit_square_relate a b =
     (case (coord_seq a, coord_seq b) of
        ((x1, y1) # as, (x2, y2) # bs) \<Rightarrow>
          (let dx = \<bar>x1 - x2\<bar>; dy = \<bar>y1 - y2\<bar>
           in if dx = 0 \<and> dy = 0 then ''2FFF1FFF2''
              else if dx + dy = 1 then ''FF2F11212''
              else if dx = 1 \<and> dy = 1 then ''FF2F01212''
              else ''FF2FF1212'')
      | _ \<Rightarrow> ''FF2FF1212'')"

definition pattern_matches :: "string \<Rightarrow> string \<Rightarrow> bool" where
  "pattern_matches matrix pattern =
     list_all2 (\<lambda>m p. p = CHR ''*'' \<or> p = m \<or> (p = CHR ''T'' \<and> m \<noteq> CHR ''F''))
       matrix pattern"

definition sample_closed :: "GEOSGeometry \<Rightarrow> VALUE" where
  "sample_closed g =
     (if coord_seq g \<noteq> [] \<and> hd (coord_seq g) = last (coord_seq g) then Qtrue else Qfalse)"

definition sample_collaborators :: collaborators where
  "sample_collaborators =
     \<lparr> rgeo_convert_to_detached_geos_geometry = sample_convert,
       rgeo_wrap_geos_geometry =
         (\<lambda>fac g c. \<lparr> obj_class = c, geom = Some g, factory = fac, klasses = Qnil \<rparr>),
       rgeo_wrap_geos_geometry_clone =
         (\<lambda>fac g c. case g of
                      None \<Rightarrow> None
                    | Some h \<Rightarrow> Some \<lparr> obj_class = c, geom = Some h, factory = fac, klasses = Qnil \<rparr>),
       rgeo_is_geos_line_string_closed = sample_closed,
       rgeo_geos_coordseqs_eql = (\<lambda>a b z. if coord_seq a = coord_seq b then Qtrue else Qfalse),
       rgeo_geos_polygons_eql = (\<lambda>a b z. if a = b then Qtrue else Qfalse),
       GEOSGeom_createCollection_r =
         (\<lambda>t gs. Some (Geometry t (int (length gs)) (map Some gs) [])),
       GEOSRelatePattern_r =
         (\<lambda>a b p. if pattern_matches (unit_square_relate a b) p then 1 else 0) \<rparr>"

definition sample_factory :: "32 word \<Rightarrow> RGeo_FactoryData" where
  "sample_factory fl =
     \<lparr> flags = fl,
       globals = \<lparr> feature_point = Class ''Point'', feature_line_string = Class ''LineString'',
                   feature_polygon = Class ''Polygon'' \<rparr> \<rparr>"

text \<open>
  A MultiPolygon of two squares, the second of which carries a subtype tag, and a closed
  line string.
\<close>

definition sample_collection :: RGeo_GeometryData where
  "sample_collection =
     \<lparr> obj_class = Class ''MultiPolygonImpl'',
       geom = Some (Geometry GEOS_MULTIPOLYGON 2
                      [Some (unit_square 0 0), Some (unit_square 2 0)] []),
       factory = sample_factory 0,
       klasses = Array [Qnil, Class ''Square''] \<rparr>"

definition closed_ring :: GEOSGeometry where
  "closed_ring = Geometry GEOS_LINESTRING 1 [] [(0, 0), (1, 0), (1, 1), (0, 0)]"

section \<open>Properties of the equality comparator\<close>

lemma eql_unequal_counts:
  assumes "GEOSGetNumGeometries_r g1 \<ge> 0" "GEOSGetNumGeometries_r g2 \<ge> 0"
    and "GEOSGetNumGeometries_r g1 \<noteq> GEOSGetNumGeometries_r g2"
  shows "rgeo_geos_geometry_collections_eql W (Some g1) (Some g2) check_z = Qfalse"
  using assms by (simp add: rgeo_geos_geometry_collections_eql.simps)

lemma eql_null: "rgeo_geos_geometry_collections_eql W None geom2 z = Qnil"
  "rgeo_geos_geometry_collections_eql W geom1 None z = Qnil"
  by (simp_all add: rgeo_geos_geometry_collections_eql.simps split: option.splits)

lemma eql_count_fails:
  "GEOSGetNumGeometries_r g1 < 0 \<or> GEOSGetNumGeometries_r g2 < 0 \<Longrightarrow>
   rgeo_geos_geometry_collections_eql W (Some g1) (Some g2) z = Qnil"
  by (auto simp: rgeo_geos_geometry_collections_eql.simps)

lemma eql_child_fetch_fails:
  "GEOSGetGeometryN_r g1 i = None \<or> GEOSGetGeometryN_r g2 i = None \<Longrightarrow>
   eql_child W g1 g2 z i = Qnil"
  by (auto simp: eql_child.simps split: option.splits)

lemma eql_child_kind_fails:
  "GEOSGetGeometryN_r g1 i = Some s1 \<Longrightarrow> GEOSGetGeometryN_r g2 i = Some s2 \<Longrightarrow>
   GEOSGeomTypeId_r s1 < 0 \<or> GEOSGeomTypeId_r s2 < 0 \<Longrightarrow>
   eql_child W g1 g2 z i = Qnil"
  by (auto simp: eql_child.simps Let_def)

lemma eql_child_kind_unknown:
  "GEOSGetGeometryN_r g1 i = Some s1 \<Longrightarrow> GEOSGetGeometryN_r g2 i = Some s2 \<Longrightarrow>
   GEOSGeomTypeId_r s1 = GEOSGeomTypeId_r s2 \<Longrightarrow> GEOSGeomTypeId_r s1 > 7 \<Longrightarrow>
   eql_child W g1 g2 z i = Qnil"
  by (auto simp: eql_child.simps Let_def)

lemma eql_child_kinds_differ:
  "GEOSGetGeometryN_r g1 i = Some s1 \<Longrightarrow> GEOSGetGeometryN_r g2 i = Some s2 \<Longrightarrow>
   GEOSGeomTypeId_r s1 \<ge> 0 \<Longrightarrow> GEOSGeomTypeId_r s2 \<ge> 0 \<Longrightarrow>
   GEOSGeomTypeId_r s1 \<noteq> GEOSGeomTypeId_r s2 \<Longrightarrow>
   eql_child W g1 g2 z i = Qfalse"
  by (auto simp: eql_child.simps Let_def)

lemma eql_children_unfold:
  "eql_children W g1 g2 z i len r =
     (if i < len then
        (if \<not> RTEST (eql_child W g1 g2 z i) then eql_child W g1 g2 z i
         else eql_children W g1 g2 z (i + 1) len (eql_child W g1 g2 z i))
      else r)"
  by (subst eql_children.simps) (simp add: Let_def)

lemma eql_children_first_failure:
  assumes "i \<le> k" "k < len"
    and "\<forall>j. i \<le> j \<and> j < k \<longrightarrow> RTEST (eql_child W g1 g2 z j)"
    and "\<not> RTEST (eql_child W g1 g2 z k)"
  shows "eql_children W g1 g2 z i len r = eql_child W g1 g2 z k"
  using assms
proof (induction "nat (k - i)" arbitrary: i r)
  case 0
  then have "i = k" by simp
  with 0 show ?case by (subst eql_children_unfold) simp
next
  case (Suc n)
  then have lt: "i < k" by linarith
  with Suc.prems have t: "RTEST (eql_child W g1 g2 z i)" by simp
  have "eql_children W g1 g2 z (i + 1) len (eql_child W g1 g2 z i) = eql_child W g1 g2 z k"
    using Suc.hyps Suc.prems lt by (intro Suc.hyps(1)) auto
  with t lt Suc.prems show ?case by (subst eql_children_unfold) simp
qed

lemma eql_children_all_true:
  assumes "\<forall>j. i \<le> j \<and> j < len \<longrightarrow> eql_child W g1 g2 z j = Qtrue" "r = Qtrue"
  shows "eql_children W g1 g2 z i len r = Qtrue"
  using assms
proof (induction "nat (len - i)" arbitrary: i r)
  case 0
  then show ?case by (subst eql_children_unfold) simp
next
  case (Suc n)
  then have lt: "i < len" by linarith
  have "eql_children W g1 g2 z (i + 1) len Qtrue = Qtrue"
    using Suc.hyps Suc.prems lt by (intro Suc.hyps(1)) auto
  with lt Suc.prems show ?case by (subst eql_children_unfold) (simp add: RTEST_def)
qed

lemma eql_children_true_only_if:
  assumes "eql_children W g1 g2 z i len r = Qtrue" "i \<le> j" "j < len"
  shows "RTEST (eql_child W g1 g2 z j)"
  using assms
proof (induction "nat (len - i)" arbitrary: i r)
  case 0
  then show ?case by simp
next
  case (Suc n)
  then have lt: "i < len" by linarith
  from Suc.prems(1) lt have t: "RTEST (eql_child W g1 g2 z i)"
    by (subst (asm) eql_children_unfold) (auto simp: RTEST_def split: if_splits)
  with Suc.prems(1) lt
  have rest: "eql_children W g1 g2 z (i + 1) len (eql_child W g1 g2 z i) = Qtrue"
    by (subst (asm) eql_children_unfold) simp
  show ?case
  proof (cases "j = i")
    case True
    with t show ?thesis by simp
  next
    case False
    with Suc.prems have "i + 1 \<le> j" by simp
    with rest Suc.hyps Suc.prems show ?thesis
      by (intro Suc.hyps(1)[of "i + 1"]) auto
  qed
qed


lemma eql_three_valued:
  assumes W: "three_valued W"
  shows "rgeo_geos_geometry_collections_eql W geom1 geom2 z \<in> {Qtrue, Qfalse, Qnil}"
    and "r \<in> {Qtrue, Qfalse, Qnil} \<Longrightarrow> eql_children W g1 g2 z i len r \<in> {Qtrue, Qfalse, Qnil}"
    and "eql_child W g1 g2 z i \<in> {Qtrue, Qfalse, Qnil}"
  using W
proof (induction W geom1 geom2 z and W g1 g2 z i len r and W g1 g2 z i
       rule: rgeo_geos_geometry_collections_eql_eql_children_eql_child.induct)
  case (1 W geom1 geom2 check_z)
  show ?case
  proof (cases geom1)
    case None
    then show ?thesis by (simp add: rgeo_geos_geometry_collections_eql.simps)
  next
    case g1: (Some g1)
    show ?thesis
    proof (cases geom2)
      case None
      then show ?thesis by (simp add: rgeo_geos_geometry_collections_eql.simps split: option.splits)
    next
      case g2: (Some g2)
      show ?thesis
      proof (cases "GEOSGetNumGeometries_r g1 \<ge> 0 \<and> GEOSGetNumGeometries_r g2 \<ge> 0
                     \<and> GEOSGetNumGeometries_r g1 = GEOSGetNumGeometries_r g2")
        case True
        then have "eql_children W g1 g2 check_z 0 (GEOSGetNumGeometries_r g1) Qtrue
                     \<in> {Qtrue, Qfalse, Qnil}"
          using "1.IH"[OF g1 g2 refl refl] "1.prems" by simp
        with True g1 g2 show ?thesis
          by (simp add: rgeo_geos_geometry_collections_eql.simps)
      next
        case False
        with g1 g2 show ?thesis
          by (auto simp: rgeo_geos_geometry_collections_eql.simps Let_def)
      qed
    qed
  qed
next
  case (2 W g1 g2 check_z i len1 result)
  then show ?case
    by (subst eql_children_unfold) auto
next
  case (3 W g1 g2 check_z i)
  then show ?case
    by (subst eql_child.simps) (auto split: option.splits simp: Let_def three_valued_def)
qed

text \<open>
  C3. Two collections that are both present, whose child counts are both answered (not
  negative) and differ, compare as \<^verbatim>\<open>false\<close>, not as \<^verbatim>\<open>nil\<close>.
\<close>

theorem eql_counts_differ_false:
  assumes "GEOSGetNumGeometries_r g1 \<ge> 0" and "GEOSGetNumGeometries_r g2 \<ge> 0"
    and "GEOSGetNumGeometries_r g1 \<noteq> GEOSGetNumGeometries_r g2"
  shows "rgeo_geos_geometry_collections_eql W (Some g1) (Some g2) check_z = Qfalse"
  using assms by (rule eql_unequal_counts)

theorem eql_counts_differ_false_witness:
  "rgeo_geos_geometry_collections_eql sample_collaborators
     (Some (Geometry GEOS_MULTIPOLYGON 1 [Some (unit_square 0 0)] []))
     (Some (Geometry GEOS_MULTIPOLYGON 2 [Some (unit_square 0 0), Some (unit_square 5 5)] []))
     0 = Qfalse"
  using eql_counts_differ_false [of "Geometry GEOS_MULTIPOLYGON 1 [Some (unit_square 0 0)] []"
      "Geometry GEOS_MULTIPOLYGON 2 [Some (unit_square 0 0), Some (unit_square 5 5)] []"
      sample_collaborators 0]
  by (simp add: GEOSGetNumGeometries_r_def)

lemma eql_true_iff:
  assumes W: "three_valued W"
    and len: "GEOSGetNumGeometries_r g1 = GEOSGetNumGeometries_r g2"
             "0 \<le> GEOSGetNumGeometries_r g1"
  shows "rgeo_geos_geometry_collections_eql W (Some g1) (Some g2) z = Qtrue
         \<longleftrightarrow> (\<forall>j. 0 \<le> j \<and> j < GEOSGetNumGeometries_r g1 \<longrightarrow> eql_child W g1 g2 z j = Qtrue)"
proof -
  have eq: "rgeo_geos_geometry_collections_eql W (Some g1) (Some g2) z
            = eql_children W g1 g2 z 0 (GEOSGetNumGeometries_r g1) Qtrue"
    using len by (simp add: rgeo_geos_geometry_collections_eql.simps)
  show ?thesis
  proof
    assume t: "rgeo_geos_geometry_collections_eql W (Some g1) (Some g2) z = Qtrue"
    show "\<forall>j. 0 \<le> j \<and> j < GEOSGetNumGeometries_r g1 \<longrightarrow> eql_child W g1 g2 z j = Qtrue"
    proof (intro allI impI)
      fix j assume j: "0 \<le> j \<and> j < GEOSGetNumGeometries_r g1"
      with t eq have "RTEST (eql_child W g1 g2 z j)"
        by (intro eql_children_true_only_if[of W g1 g2 z 0 _ Qtrue]) auto
      moreover have "eql_child W g1 g2 z j \<in> {Qtrue, Qfalse, Qnil}"
        using W by (rule eql_three_valued(3))
      ultimately show "eql_child W g1 g2 z j = Qtrue"
        by (auto simp: RTEST_def)
    qed
  next
    assume "\<forall>j. 0 \<le> j \<and> j < GEOSGetNumGeometries_r g1 \<longrightarrow> eql_child W g1 g2 z j = Qtrue"
    then show "rgeo_geos_geometry_collections_eql W (Some g1) (Some g2) z = Qtrue"
      unfolding eq by (intro eql_children_all_true) auto
  qed
qed

lemma eql_first_failure:
  assumes "GEOSGetNumGeometries_r g1 = GEOSGetNumGeometries_r g2"
    and "0 \<le> k" "k < GEOSGetNumGeometries_r g1"
    and "\<forall>j. 0 \<le> j \<and> j < k \<longrightarrow> RTEST (eql_child W g1 g2 z j)"
    and "\<not> RTEST (eql_child W g1 g2 z k)"
  shows "rgeo_geos_geometry_collections_eql W (Some g1) (Some g2) z = eql_child W g1 g2 z k"
proof -
  have "rgeo_geos_geometry_collections_eql W (Some g1) (Some g2) z
            = eql_children W g1 g2 z 0 (GEOSGetNumGeometries_r g1) Qtrue"
    using assms by (simp add: rgeo_geos_geometry_collections_eql.simps)
  also have "\<dots> = eql_child W g1 g2 z k"
    using assms by (intro eql_children_first_failure) auto
  finally show ?thesis .
qed

lemma eql_child_leaf_kind:
  "GEOSGetGeometryN_r g1 i = Some s1 \<Longrightarrow> GEOSGetGeometryN_r g2 i = Some s2 \<Longrightarrow>
   GEOSGeomTypeId_r s1 = GEOSGeomTypeId_r s2 \<Longrightarrow>
   GEOSGeomTypeId_r s1 = GEOS_POINT \<or> GEOSGeomTypeId_r s1 = GEOS_LINESTRING
     \<or> GEOSGeomTypeId_r s1 = GEOS_LINEARRING \<Longrightarrow>
   eql_child W g1 g2 z i = rgeo_geos_coordseqs_eql W s1 s2 z"
  by (auto simp: eql_child.simps Let_def)

lemma eql_child_polygon_kind:
  "GEOSGetGeometryN_r g1 i = Some s1 \<Longrightarrow> GEOSGetGeometryN_r g2 i = Some s2 \<Longrightarrow>
   GEOSGeomTypeId_r s1 = GEOSGeomTypeId_r s2 \<Longrightarrow> GEOSGeomTypeId_r s1 = GEOS_POLYGON \<Longrightarrow>
   eql_child W g1 g2 z i = rgeo_geos_polygons_eql W s1 s2 z"
  by (auto simp: eql_child.simps Let_def)

lemma eql_child_collection_kind:
  "GEOSGetGeometryN_r g1 i = Some s1 \<Longrightarrow> GEOSGetGeometryN_r g2 i = Some s2 \<Longrightarrow>
   GEOSGeomTypeId_r s1 = GEOSGeomTypeId_r s2 \<Longrightarrow>
   GEOSGeomTypeId_r s1 = GEOS_GEOMETRYCOLLECTION \<or> GEOSGeomTypeId_r s1 = GEOS_MULTIPOINT
     \<or> GEOSGeomTypeId_r s1 = GEOS_MULTILINESTRING \<or> GEOSGeomTypeId_r s1 = GEOS_MULTIPOLYGON \<Longrightarrow>
   eql_child W g1 g2 z i = rgeo_geos_geometry_collections_eql W (Some s1) (Some s2) z"
  by (auto simp: eql_child.simps Let_def)

text \<open>
  C4 does not hold for a child of unrecognised kind whose counterpart has another kind: the
  kinds are compared before the dispatch (lines 453 and 477-480), so the two children
  compare as \<^verbatim>\<open>false\<close>, and so do the collections. Here the only child of the first
  collection has kind 8, which the engine answers without failure and the dispatch does not
  know, and the only child of the second is a polygon.
\<close>

theorem eql_unrecognised_kind_counterexample:
  "GEOSGeomTypeId_r (Geometry 8 0 [] []) = 8
   \<and> GEOSGeomTypeId_r (unit_square 0 0) = GEOS_POLYGON
   \<and> eql_child sample_collaborators
        (Geometry GEOS_GEOMETRYCOLLECTION 1 [Some (Geometry 8 0 [] [])] [])
        (Geometry GEOS_GEOMETRYCOLLECTION 1 [Some (unit_square 0 0)] []) 0 0 = Qfalse
   \<and> rgeo_geos_geometry_collections_eql sample_collaborators
        (Some (Geometry GEOS_GEOMETRYCOLLECTION 1 [Some (Geometry 8 0 [] [])] []))
        (Some (Geometry GEOS_GEOMETRYCOLLECTION 1 [Some (unit_square 0 0)] [])) 0 = Qfalse"
  by (simp add: rgeo_geos_geometry_collections_eql.simps eql_children.simps eql_child.simps
        GEOSGetNumGeometries_r_def GEOSGetGeometryN_r_def GEOSGeomTypeId_r_def unit_square_def
        RTEST_def)

text \<open>
  C4, amended. The comparator answers \<^verbatim>\<open>nil\<close> when an input is absent or a child count
  is negative. The comparison of the children at an index answers \<^verbatim>\<open>nil\<close> when a child
  cannot be fetched and when a kind query is negative; it answers \<^verbatim>\<open>false\<close> when the
  two kinds are answered and differ, recognised or not; for two children of the same kind
  it answers what \<^verbatim>\<open>rgeo_geos_coordseqs_eql\<close> answers for them (point, line string,
  linear ring), what \<^verbatim>\<open>rgeo_geos_polygons_eql\<close> answers (polygon), what the comparator
  itself answers for them (the four collection kinds), each unchanged, and \<^verbatim>\<open>nil\<close>
  when the common kind is none of these eight. With equal counts the comparator stops at
  the first index whose child comparison is \<^verbatim>\<open>false\<close> or \<^verbatim>\<open>nil\<close> and returns that
  very value, so a \<^verbatim>\<open>nil\<close> is never turned into \<^verbatim>\<open>false\<close>, at any depth; and, for
  three-valued per-kind comparators, it returns \<^verbatim>\<open>true\<close> exactly when every child
  comparison does.
\<close>

theorem eql_indeterminate_and_first_failure:
  "rgeo_geos_geometry_collections_eql W None geom2 z = Qnil
   \<and> rgeo_geos_geometry_collections_eql W geom1 None z = Qnil
   \<and> (GEOSGetNumGeometries_r ga < 0 \<or> GEOSGetNumGeometries_r gb < 0 \<longrightarrow>
        rgeo_geos_geometry_collections_eql W (Some ga) (Some gb) z = Qnil)
   \<and> (GEOSGetGeometryN_r gc i = None \<or> GEOSGetGeometryN_r gd i = None \<longrightarrow>
        eql_child W gc gd z i = Qnil)
   \<and> (GEOSGetGeometryN_r ge i1 = Some s1 \<and> GEOSGetGeometryN_r gf i1 = Some s2
        \<and> (GEOSGeomTypeId_r s1 < 0 \<or> GEOSGeomTypeId_r s2 < 0) \<longrightarrow>
        eql_child W ge gf z i1 = Qnil)
   \<and> (GEOSGetGeometryN_r gg i2 = Some s3 \<and> GEOSGetGeometryN_r gh i2 = Some s4
        \<and> GEOSGeomTypeId_r s3 = GEOSGeomTypeId_r s4
        \<and> GEOSGeomTypeId_r s3 > GEOS_GEOMETRYCOLLECTION \<longrightarrow>
        eql_child W gg gh z i2 = Qnil)
   \<and> (GEOSGetGeometryN_r gi i3 = Some s5 \<and> GEOSGetGeometryN_r gj i3 = Some s6
        \<and> GEOSGeomTypeId_r s5 \<ge> 0 \<and> GEOSGeomTypeId_r s6 \<ge> 0
        \<and> GEOSGeomTypeId_r s5 \<noteq> GEOSGeomTypeId_r s6 \<longrightarrow>
        eql_child W gi gj z i3 = Qfalse)
   \<and> (GEOSGetGeometryN_r gk i4 = Some s7 \<and> GEOSGetGeometryN_r gl i4 = Some s8
        \<and> GEOSGeomTypeId_r s7 = GEOSGeomTypeId_r s8
        \<and> (GEOSGeomTypeId_r s7 = GEOS_POINT \<or> GEOSGeomTypeId_r s7 = GEOS_LINESTRING
             \<or> GEOSGeomTypeId_r s7 = GEOS_LINEARRING) \<longrightarrow>
        eql_child W gk gl z i4 = rgeo_geos_coordseqs_eql W s7 s8 z)
   \<and> (GEOSGetGeometryN_r gm i5 = Some s9 \<and> GEOSGetGeometryN_r gn i5 = Some s10
        \<and> GEOSGeomTypeId_r s9 = GEOSGeomTypeId_r s10
        \<and> GEOSGeomTypeId_r s9 = GEOS_POLYGON \<longrightarrow>
        eql_child W gm gn z i5 = rgeo_geos_polygons_eql W s9 s10 z)
   \<and> (GEOSGetGeometryN_r go i6 = Some s11 \<and> GEOSGetGeometryN_r gp i6 = Some s12
        \<and> GEOSGeomTypeId_r s11 = GEOSGeomTypeId_r s12
        \<and> (GEOSGeomTypeId_r s11 = GEOS_GEOMETRYCOLLECTION
             \<or> GEOSGeomTypeId_r s11 = GEOS_MULTIPOINT
             \<or> GEOSGeomTypeId_r s11 = GEOS_MULTILINESTRING
             \<or> GEOSGeomTypeId_r s11 = GEOS_MULTIPOLYGON) \<longrightarrow>
        eql_child W go gp z i6 = rgeo_geos_geometry_collections_eql W (Some s11) (Some s12) z)
   \<and> (GEOSGetNumGeometries_r g1 = GEOSGetNumGeometries_r g2
        \<and> 0 \<le> k \<and> k < GEOSGetNumGeometries_r g1
        \<and> (\<forall>j. 0 \<le> j \<and> j < k \<longrightarrow> RTEST (eql_child W g1 g2 z j))
        \<and> \<not> RTEST (eql_child W g1 g2 z k) \<longrightarrow>
        rgeo_geos_geometry_collections_eql W (Some g1) (Some g2) z = eql_child W g1 g2 z k)
   \<and> (three_valued W \<and> GEOSGetNumGeometries_r g3 = GEOSGetNumGeometries_r g4
        \<and> 0 \<le> GEOSGetNumGeometries_r g3 \<longrightarrow>
        (rgeo_geos_geometry_collections_eql W (Some g3) (Some g4) z = Qtrue
         \<longleftrightarrow> (\<forall>j. 0 \<le> j \<and> j < GEOSGetNumGeometries_r g3 \<longrightarrow>
                   eql_child W g3 g4 z j = Qtrue)))"
proof -
  note a = eql_null(1)[of W geom2 z] eql_null(2)[of W geom1 z] eql_count_fails[of ga gb W z]
    eql_child_fetch_fails[of gc i gd W z]
  have b: "GEOSGetGeometryN_r ge i1 = Some s1 \<and> GEOSGetGeometryN_r gf i1 = Some s2
        \<and> (GEOSGeomTypeId_r s1 < 0 \<or> GEOSGeomTypeId_r s2 < 0) \<longrightarrow>
        eql_child W ge gf z i1 = Qnil"
    using eql_child_kind_fails[of ge i1 s1 gf s2 W z] by blast
  have c: "GEOSGetGeometryN_r gg i2 = Some s3 \<and> GEOSGetGeometryN_r gh i2 = Some s4
        \<and> GEOSGeomTypeId_r s3 = GEOSGeomTypeId_r s4
        \<and> GEOSGeomTypeId_r s3 > GEOS_GEOMETRYCOLLECTION \<longrightarrow>
        eql_child W gg gh z i2 = Qnil"
    using eql_child_kind_unknown[of gg i2 s3 gh s4 W z] by blast
  have d: "GEOSGetGeometryN_r gi i3 = Some s5 \<and> GEOSGetGeometryN_r gj i3 = Some s6
        \<and> GEOSGeomTypeId_r s5 \<ge> 0 \<and> GEOSGeomTypeId_r s6 \<ge> 0
        \<and> GEOSGeomTypeId_r s5 \<noteq> GEOSGeomTypeId_r s6 \<longrightarrow>
        eql_child W gi gj z i3 = Qfalse"
    using eql_child_kinds_differ[of gi i3 s5 gj s6 W z] by blast
  have e: "GEOSGetGeometryN_r gk i4 = Some s7 \<and> GEOSGetGeometryN_r gl i4 = Some s8
        \<and> GEOSGeomTypeId_r s7 = GEOSGeomTypeId_r s8
        \<and> (GEOSGeomTypeId_r s7 = GEOS_POINT \<or> GEOSGeomTypeId_r s7 = GEOS_LINESTRING
             \<or> GEOSGeomTypeId_r s7 = GEOS_LINEARRING) \<longrightarrow>
        eql_child W gk gl z i4 = rgeo_geos_coordseqs_eql W s7 s8 z"
    using eql_child_leaf_kind[of gk i4 s7 gl s8 W z] by blast
  have f: "GEOSGetGeometryN_r gm i5 = Some s9 \<and> GEOSGetGeometryN_r gn i5 = Some s10
        \<and> GEOSGeomTypeId_r s9 = GEOSGeomTypeId_r s10
        \<and> GEOSGeomTypeId_r s9 = GEOS_POLYGON \<longrightarrow>
        eql_child W gm gn z i5 = rgeo_geos_polygons_eql W s9 s10 z"
    using eql_child_polygon_kind[of gm i5 s9 gn s10 W z] by blast
  have g: "GEOSGetGeometryN_r go i6 = Some s11 \<and> GEOSGetGeometryN_r gp i6 = Some s12
        \<and> GEOSGeomTypeId_r s11 = GEOSGeomTypeId_r s12
        \<and> (GEOSGeomTypeId_r s11 = GEOS_GEOMETRYCOLLECTION
             \<or> GEOSGeomTypeId_r s11 = GEOS_MULTIPOINT
             \<or> GEOSGeomTypeId_r s11 = GEOS_MULTILINESTRING
             \<or> GEOSGeomTypeId_r s11 = GEOS_MULTIPOLYGON) \<longrightarrow>
        eql_child W go gp z i6 = rgeo_geos_geometry_collections_eql W (Some s11) (Some s12) z"
    using eql_child_collection_kind[of go i6 s11 gp s12 W z] by blast
  have h: "GEOSGetNumGeometries_r g1 = GEOSGetNumGeometries_r g2
        \<and> 0 \<le> k \<and> k < GEOSGetNumGeometries_r g1
        \<and> (\<forall>j. 0 \<le> j \<and> j < k \<longrightarrow> RTEST (eql_child W g1 g2 z j))
        \<and> \<not> RTEST (eql_child W g1 g2 z k) \<longrightarrow>
        rgeo_geos_geometry_collections_eql W (Some g1) (Some g2) z = eql_child W g1 g2 z k"
    using eql_first_failure[of g1 g2 k W z] by blast
  have t: "three_valued W \<and> GEOSGetNumGeometries_r g3 = GEOSGetNumGeometries_r g4
        \<and> 0 \<le> GEOSGetNumGeometries_r g3 \<longrightarrow>
        (rgeo_geos_geometry_collections_eql W (Some g3) (Some g4) z = Qtrue
         \<longleftrightarrow> (\<forall>j. 0 \<le> j \<and> j < GEOSGetNumGeometries_r g3 \<longrightarrow>
                   eql_child W g3 g4 z j = Qtrue))"
    using eql_true_iff[of W g3 g4 z] by blast
  from a b c d e f g h t show ?thesis
    by (intro conjI) (assumption | blast)+
qed

lemma sample_three_valued: "three_valued sample_collaborators"
  by (simp add: three_valued_def sample_collaborators_def)


theorem eql_indeterminate_and_first_failure_witness:
  "rgeo_geos_geometry_collections_eql sample_collaborators None None 0 = Qnil
   \<and> rgeo_geos_geometry_collections_eql sample_collaborators
        (Some (Geometry GEOS_GEOMETRYCOLLECTION (- 1) [] []))
        (Some (Geometry GEOS_GEOMETRYCOLLECTION 0 [] [])) 0 = Qnil
   \<and> eql_child sample_collaborators
        (Geometry GEOS_MULTIPOLYGON 1 [None] [])
        (Geometry GEOS_MULTIPOLYGON 1 [Some (unit_square 0 0)] []) 0 0 = Qnil
   \<and> eql_child sample_collaborators
        (Geometry GEOS_GEOMETRYCOLLECTION 1 [Some (Geometry (- 1) 0 [] [])] [])
        (Geometry GEOS_GEOMETRYCOLLECTION 1 [Some (unit_square 0 0)] []) 0 0 = Qnil
   \<and> eql_child sample_collaborators
        (Geometry GEOS_GEOMETRYCOLLECTION 1 [Some (Geometry 8 0 [] [])] [])
        (Geometry GEOS_GEOMETRYCOLLECTION 1 [Some (Geometry 8 0 [] [])] []) 0 0 = Qnil
   \<and> eql_child sample_collaborators
        (Geometry GEOS_GEOMETRYCOLLECTION 1 [Some (Geometry 8 0 [] [])] [])
        (Geometry GEOS_GEOMETRYCOLLECTION 1 [Some (unit_square 0 0)] []) 0 0 = Qfalse
   \<and> eql_child sample_collaborators
        (Geometry GEOS_MULTILINESTRING 1 [Some closed_ring] [])
        (Geometry GEOS_MULTILINESTRING 1
           [Some (Geometry GEOS_LINESTRING 1 [] [(0, 0), (1, 0)])] []) 0 0 = Qfalse
   \<and> eql_child sample_collaborators
        (Geometry GEOS_GEOMETRYCOLLECTION 2
           [Some (unit_square 0 0), Some (Geometry GEOS_MULTIPOLYGON 1 [None] [])] [])
        (Geometry GEOS_GEOMETRYCOLLECTION 2
           [Some (unit_square 0 0),
            Some (Geometry GEOS_MULTIPOLYGON 1 [Some (unit_square 0 0)] [])] []) 0 0 = Qtrue
   \<and> eql_child sample_collaborators
        (Geometry GEOS_GEOMETRYCOLLECTION 2
           [Some (unit_square 0 0), Some (Geometry GEOS_MULTIPOLYGON 1 [None] [])] [])
        (Geometry GEOS_GEOMETRYCOLLECTION 2
           [Some (unit_square 0 0),
            Some (Geometry GEOS_MULTIPOLYGON 1 [Some (unit_square 0 0)] [])] []) 0 1 = Qnil
   \<and> rgeo_geos_geometry_collections_eql sample_collaborators
        (Some (Geometry GEOS_GEOMETRYCOLLECTION 2
           [Some (unit_square 0 0), Some (Geometry GEOS_MULTIPOLYGON 1 [None] [])] []))
        (Some (Geometry GEOS_GEOMETRYCOLLECTION 2
           [Some (unit_square 0 0),
            Some (Geometry GEOS_MULTIPOLYGON 1 [Some (unit_square 0 0)] [])] [])) 0 = Qnil
   \<and> rgeo_geos_geometry_collections_eql sample_collaborators
        (Some (Geometry GEOS_MULTIPOLYGON 1 [Some (unit_square 0 0)] []))
        (Some (Geometry GEOS_MULTIPOLYGON 1 [Some (unit_square 0 0)] [])) 0 = Qtrue"
proof -
  let ?W = sample_collaborators
  let ?sq = "unit_square 0 0"
  let ?in1 = "Geometry GEOS_MULTIPOLYGON 1 [None] []"
  let ?in2 = "Geometry GEOS_MULTIPOLYGON 1 [Some ?sq] []"
  let ?out1 = "Geometry GEOS_GEOMETRYCOLLECTION 2 [Some ?sq, Some ?in1] []"
  let ?out2 = "Geometry GEOS_GEOMETRYCOLLECTION 2 [Some ?sq, Some ?in2] []"
  let ?line = "Geometry GEOS_LINESTRING 1 [] [(0, 0), (1, 0)]"
  let ?u = "Geometry 8 0 [] []"
  note outer = eql_indeterminate_and_first_failure
      [where W = ?W and z = 0 and ?geom1.0 = None and ?geom2.0 = None
         and ga = "Geometry GEOS_GEOMETRYCOLLECTION (- 1) [] []"
         and gb = "Geometry GEOS_GEOMETRYCOLLECTION 0 [] []"
         and gc = ?in1 and gd = ?in2 and i = 0
         and ge = "Geometry GEOS_GEOMETRYCOLLECTION 1 [Some (Geometry (- 1) 0 [] [])] []"
         and gf = "Geometry GEOS_GEOMETRYCOLLECTION 1 [Some ?sq] []" and ?i1.0 = 0
         and ?s1.0 = "Geometry (- 1) 0 [] []" and ?s2.0 = ?sq
         and gg = "Geometry GEOS_GEOMETRYCOLLECTION 1 [Some ?u] []"
         and gh = "Geometry GEOS_GEOMETRYCOLLECTION 1 [Some ?u] []" and ?i2.0 = 0
         and ?s3.0 = ?u and ?s4.0 = ?u
         and gi = "Geometry GEOS_GEOMETRYCOLLECTION 1 [Some ?u] []"
         and gj = "Geometry GEOS_GEOMETRYCOLLECTION 1 [Some ?sq] []" and ?i3.0 = 0
         and ?s5.0 = ?u and ?s6.0 = ?sq
         and gk = "Geometry GEOS_MULTILINESTRING 1 [Some closed_ring] []"
         and gl = "Geometry GEOS_MULTILINESTRING 1 [Some ?line] []" and ?i4.0 = 0
         and ?s7.0 = closed_ring and ?s8.0 = ?line
         and gm = ?out1 and gn = ?out2 and ?i5.0 = 0 and ?s9.0 = ?sq and ?s10.0 = ?sq
         and go = ?out1 and gp = ?out2 and ?i6.0 = 1 and ?s11.0 = ?in1 and ?s12.0 = ?in2
         and ?g1.0 = ?out1 and ?g2.0 = ?out2 and k = 1 and ?g3.0 = ?in2 and ?g4.0 = ?in2]
  note inner = eql_indeterminate_and_first_failure
      [where W = ?W and z = 0 and ?geom1.0 = None and ?geom2.0 = None
         and ga = "Geometry GEOS_GEOMETRYCOLLECTION (- 1) [] []"
         and gb = "Geometry GEOS_GEOMETRYCOLLECTION 0 [] []"
         and gc = ?in1 and gd = ?in2 and i = 0
         and ge = "Geometry GEOS_GEOMETRYCOLLECTION 1 [Some (Geometry (- 1) 0 [] [])] []"
         and gf = "Geometry GEOS_GEOMETRYCOLLECTION 1 [Some ?sq] []" and ?i1.0 = 0
         and ?s1.0 = "Geometry (- 1) 0 [] []" and ?s2.0 = ?sq
         and gg = "Geometry GEOS_GEOMETRYCOLLECTION 1 [Some ?u] []"
         and gh = "Geometry GEOS_GEOMETRYCOLLECTION 1 [Some ?u] []" and ?i2.0 = 0
         and ?s3.0 = ?u and ?s4.0 = ?u
         and gi = "Geometry GEOS_GEOMETRYCOLLECTION 1 [Some ?u] []"
         and gj = "Geometry GEOS_GEOMETRYCOLLECTION 1 [Some ?sq] []" and ?i3.0 = 0
         and ?s5.0 = ?u and ?s6.0 = ?sq
         and gk = "Geometry GEOS_MULTILINESTRING 1 [Some closed_ring] []"
         and gl = "Geometry GEOS_MULTILINESTRING 1 [Some ?line] []" and ?i4.0 = 0
         and ?s7.0 = closed_ring and ?s8.0 = ?line
         and gm = ?in2 and gn = ?in2 and ?i5.0 = 0 and ?s9.0 = ?sq and ?s10.0 = ?sq
         and go = ?out1 and gp = ?out2 and ?i6.0 = 1 and ?s11.0 = ?in1 and ?s12.0 = ?in2
         and ?g1.0 = ?in1 and ?g2.0 = ?in2 and k = 0 and ?g3.0 = ?in2 and ?g4.0 = ?in2]
  note o1 = outer[THEN conjunct2]
  note o2 = o1[THEN conjunct2]
  note o3 = o2[THEN conjunct2]
  note o4 = o3[THEN conjunct2]
  note o5 = o4[THEN conjunct2]
  note o6 = o5[THEN conjunct2]
  note o7 = o6[THEN conjunct2]
  note o8 = o7[THEN conjunct2]
  note o9 = o8[THEN conjunct2]
  note o10 = o9[THEN conjunct2]
  note o11 = o10[THEN conjunct2]
  note i1 = inner[THEN conjunct2]
  note i2 = i1[THEN conjunct2]
  note i3 = i2[THEN conjunct2]
  note i4 = i3[THEN conjunct2]
  note i5 = i4[THEN conjunct2]
  note i6 = i5[THEN conjunct2]
  note i7 = i6[THEN conjunct2]
  note i8 = i7[THEN conjunct2]
  note i9 = i8[THEN conjunct2]
  note i10 = i9[THEN conjunct2]
  have absent: "rgeo_geos_geometry_collections_eql ?W None None 0 = Qnil"
    by (rule outer[THEN conjunct1])
  have count: "rgeo_geos_geometry_collections_eql ?W
        (Some (Geometry GEOS_GEOMETRYCOLLECTION (- 1) [] []))
        (Some (Geometry GEOS_GEOMETRYCOLLECTION 0 [] [])) 0 = Qnil"
    using o2[THEN conjunct1] by (simp add: GEOSGetNumGeometries_r_def)
  have in0: "eql_child ?W ?in1 ?in2 0 0 = Qnil"
    using o3[THEN conjunct1] by (simp add: GEOSGetGeometryN_r_def)
  have kind: "eql_child ?W (Geometry GEOS_GEOMETRYCOLLECTION 1 [Some (Geometry (- 1) 0 [] [])] [])
        (Geometry GEOS_GEOMETRYCOLLECTION 1 [Some ?sq] []) 0 0 = Qnil"
    using o4[THEN conjunct1] by (simp add: GEOSGetGeometryN_r_def GEOSGeomTypeId_r_def)
  have unknown: "eql_child ?W (Geometry GEOS_GEOMETRYCOLLECTION 1 [Some ?u] [])
        (Geometry GEOS_GEOMETRYCOLLECTION 1 [Some ?u] []) 0 0 = Qnil"
    using o5[THEN conjunct1] by (simp add: GEOSGetGeometryN_r_def GEOSGeomTypeId_r_def)
  have differ: "eql_child ?W (Geometry GEOS_GEOMETRYCOLLECTION 1 [Some ?u] [])
                 (Geometry GEOS_GEOMETRYCOLLECTION 1 [Some ?sq] []) 0 0 = Qfalse"
    using o6[THEN conjunct1]
    by (simp add: GEOSGetGeometryN_r_def GEOSGeomTypeId_r_def unit_square_def)
  have "eql_child ?W (Geometry GEOS_MULTILINESTRING 1 [Some closed_ring] [])
                 (Geometry GEOS_MULTILINESTRING 1 [Some ?line] []) 0 0
        = rgeo_geos_coordseqs_eql ?W closed_ring ?line 0"
    using o7[THEN conjunct1]
    by (simp add: GEOSGetGeometryN_r_def GEOSGeomTypeId_r_def closed_ring_def)
  then have lines: "eql_child ?W (Geometry GEOS_MULTILINESTRING 1 [Some closed_ring] [])
                 (Geometry GEOS_MULTILINESTRING 1 [Some ?line] []) 0 0 = Qfalse"
    by (simp add: sample_collaborators_def closed_ring_def)
  have "eql_child ?W ?out1 ?out2 0 0 = rgeo_geos_polygons_eql ?W ?sq ?sq 0"
    using o8[THEN conjunct1]
    by (simp add: GEOSGetGeometryN_r_def GEOSGeomTypeId_r_def unit_square_def)
  then have c0: "eql_child ?W ?out1 ?out2 0 0 = Qtrue"
    by (simp add: sample_collaborators_def)
  have none_before: "\<forall>j. 0 \<le> j \<and> j < 0 \<longrightarrow> RTEST (eql_child ?W ?in1 ?in2 0 j)"
    by auto
  have inner_nil: "rgeo_geos_geometry_collections_eql ?W (Some ?in1) (Some ?in2) 0 = Qnil"
    using i10[THEN conjunct1] in0 none_before
    by (simp add: GEOSGetNumGeometries_r_def RTEST_def)
  have "eql_child ?W ?out1 ?out2 0 1
        = rgeo_geos_geometry_collections_eql ?W (Some ?in1) (Some ?in2) 0"
    using o9[THEN conjunct1] by (simp add: GEOSGetGeometryN_r_def GEOSGeomTypeId_r_def)
  with inner_nil have c1: "eql_child ?W ?out1 ?out2 0 1 = Qnil"
    by simp
  have before: "\<forall>j. 0 \<le> j \<and> j < 1 \<longrightarrow> RTEST (eql_child ?W ?out1 ?out2 0 j)"
  proof (intro allI impI)
    fix j :: int assume "0 \<le> j \<and> j < 1"
    then have "j = 0" by simp
    with c0 show "RTEST (eql_child ?W ?out1 ?out2 0 j)" by (simp add: RTEST_def)
  qed
  have nested: "rgeo_geos_geometry_collections_eql ?W (Some ?out1) (Some ?out2) 0 = Qnil"
    using o10[THEN conjunct1] before c1 by (simp add: GEOSGetNumGeometries_r_def RTEST_def)
  have "eql_child ?W ?in2 ?in2 0 0 = rgeo_geos_polygons_eql ?W ?sq ?sq 0"
    using i8[THEN conjunct1]
    by (simp add: GEOSGetGeometryN_r_def GEOSGeomTypeId_r_def unit_square_def)
  then have d0: "eql_child ?W ?in2 ?in2 0 0 = Qtrue"
    by (simp add: sample_collaborators_def)
  have every: "\<forall>j. 0 \<le> j \<and> j < GEOSGetNumGeometries_r ?in2 \<longrightarrow> eql_child ?W ?in2 ?in2 0 j = Qtrue"
  proof (intro allI impI)
    fix j :: int assume "0 \<le> j \<and> j < GEOSGetNumGeometries_r ?in2"
    then have "j = 0" by (simp add: GEOSGetNumGeometries_r_def)
    with d0 show "eql_child ?W ?in2 ?in2 0 j = Qtrue" by simp
  qed
  have all: "rgeo_geos_geometry_collections_eql ?W (Some ?in2) (Some ?in2) 0 = Qtrue"
    using o11 every sample_three_valued by (simp add: GEOSGetNumGeometries_r_def)
  from absent count in0 kind unknown differ lines c0 c1 nested all show ?thesis by blast
qed

section \<open>Properties of construction\<close>

lemma push_nils_Array: "push_nils j (Array xs) = Array (xs @ replicate j Qnil)"
proof (induction j arbitrary: xs)
  case 0
  then show ?case by simp
next
  case (Suc j)
  have "replicate j Qnil @ [Qnil] = Qnil # replicate j Qnil"
    by (simp add: replicate_append_same)
  then show ?case by (simp add: Suc.IH)
qed

lemma store_klass_tag_array:
  assumes "length ts = i"
  shows "store_klass i (tag_array ts) t = tag_array (ts @ [t])"
proof (cases "\<forall>t \<in> set ts. t = Qnil")
  case True
  then have "ts = replicate i Qnil"
    using assms by (metis replicate_length_same)
  with True show ?thesis
    by (auto simp: store_klass_def tag_array_def NIL_P_def Let_def push_nils_Array)
next
  case False
  then show ?thesis
    by (auto simp: store_klass_def tag_array_def NIL_P_def Let_def)
qed

lemma convert_elements_result:
  assumes "convert_elements W fac (cast_type_of type fac) array len i geoms ks = (i', geoms', ks')"
    and "i \<le> len"
  shows "i \<le> i' \<and> i' \<le> len
       \<and> (\<forall>j. i \<le> j \<and> j < i' \<longrightarrow> fst (converted W fac type array j) \<noteq> None)
       \<and> (i' < len \<longrightarrow> fst (converted W fac type array i') = None)
       \<and> geoms' = geoms @ map (\<lambda>j. the (fst (converted W fac type array j))) [i..<i']
       \<and> ks' = fold (\<lambda>j ks. store_klass j ks (snd (converted W fac type array j))) [i..<i'] ks"
  using assms
proof (induction W fac "cast_type_of type fac" array len i geoms ks
       rule: convert_elements.induct)
  case (1 W fac array len i geoms ks)
  show ?case
  proof (cases "i < len")
    case False
    with "1.prems" show ?thesis
      by (auto simp: convert_elements.simps)
  next
    case lt: True
    obtain og klass where c: "converted W fac type array i = (og, klass)"
      by (cases "converted W fac type array i")
    show ?thesis
    proof (cases og)
      case None
      with lt c "1.prems" show ?thesis
        by (auto simp: convert_elements.simps converted_def)
    next
      case (Some g)
      with lt c "1.prems"(1)
      have rec: "convert_elements W fac (cast_type_of type fac) array len (i + 1) (geoms @ [g])
                   (store_klass i ks klass) = (i', geoms', ks')"
        by (subst (asm) convert_elements.simps) (simp add: converted_def)
      have IH: "i + 1 \<le> i' \<and> i' \<le> len
       \<and> (\<forall>j. i + 1 \<le> j \<and> j < i' \<longrightarrow> fst (converted W fac type array j) \<noteq> None)
       \<and> (i' < len \<longrightarrow> fst (converted W fac type array i') = None)
       \<and> geoms' = (geoms @ [g]) @ map (\<lambda>j. the (fst (converted W fac type array j))) [i + 1..<i']
       \<and> ks' = fold (\<lambda>j ks. store_klass j ks (snd (converted W fac type array j))) [i + 1..<i']
                  (store_klass i ks klass)"
      proof -
        have c': "(og, klass) = rgeo_convert_to_detached_geos_geometry W
                    (rb_ary_entry array (int i)) fac (cast_type_of type fac)"
          using c by (simp add: converted_def)
        from lt have "i + 1 \<le> len" by simp
        from "1.hyps"[OF lt c' Some rec this] show ?thesis .
      qed
      then have le: "i < i'" by simp
      then have up: "[i..<i'] = i # [i + 1..<i']"
        by (simp add: upt_conv_Cons)
      have "\<forall>j. i \<le> j \<and> j < i' \<longrightarrow> fst (converted W fac type array j) \<noteq> None"
      proof (intro allI impI)
        fix j assume j: "i \<le> j \<and> j < i'"
        show "fst (converted W fac type array j) \<noteq> None"
        proof (cases "j = i")
          case True
          with c Some show ?thesis by simp
        next
          case False
          with j IH show ?thesis by simp
        qed
      qed
      with IH le up c Some show ?thesis by simp
    qed
  qed
qed

lemma fold_store_klass:
  "fold (\<lambda>j ks. store_klass j ks (tag j)) [0..<n] Qnil = tag_array (map tag [0..<n])"
proof (induction n)
  case 0
  then show ?case by (simp add: tag_array_def)
next
  case (Suc n)
  then show ?case
    using store_klass_tag_array[of "map tag [0..<n]" n "tag n"] by simp
qed

lemma convert_elements_stops_at_failure:
  assumes k: "k < len" "length hs = k"
    and ok: "\<forall>j<k. fst (converted W fac type array j) = Some (hs ! j)"
    and bad: "fst (converted W fac type array k) = None"
  shows "\<exists>ks'. convert_elements W fac (cast_type_of type fac) array len 0 [] Qnil = (k, hs, ks')"
proof -
  obtain i' geoms' ks'
    where r: "convert_elements W fac (cast_type_of type fac) array len 0 [] Qnil = (i', geoms', ks')"
    by (metis prod_cases3)
  note R = convert_elements_result[OF r, simplified]
  have "\<not> k < i'"
    using R bad by auto
  moreover have "\<not> i' < k"
  proof
    assume "i' < k"
    with k R have "fst (converted W fac type array i') = None" by simp
    with ok \<open>i' < k\<close> show False by simp
  qed
  ultimately have i': "i' = k" by simp
  have "geoms' = map (\<lambda>j. the (fst (converted W fac type array j))) [0..<k]"
    using R i' by simp
  also have "\<dots> = hs"
    using k ok by (intro nth_equalityI) auto
  finally show ?thesis using r i' by simp
qed

text \<open>
  C1. When the elements at indices \<open>0..k-1\<close> convert, to the handles \<open>hs\<close>, and the
  element at index \<open>k\<close> does not, the constructor returns \<^verbatim>\<open>nil\<close> and its engine
  calls are exactly one \<^verbatim>\<open>GEOSGeom_destroy_r\<close> for each of the \<open>k\<close> handles, in index
  order: every converted handle is destroyed and the engine is never asked to assemble a
  collection. The array length is one that the \<^verbatim>\<open>unsigned int\<close> holding it can
  represent.
\<close>

theorem create_all_or_nothing:
  assumes "length elems < 2 ^ 32" and "k < length elems" and "length hs = k"
    and "\<forall>j<k. fst (converted W fac type (Array elems) j) = Some (hs ! j)"
    and "fst (converted W fac type (Array elems) k) = None"
  shows "create_geometry_collection W module type fac (Array elems)
         = Inr (None, map Destroy hs)"
proof -
  from assms(1) have len: "length elems mod 2 ^ 32 = length elems" by simp
  from convert_elements_stops_at_failure[OF assms(2,3,4,5)]
  obtain ks' where c: "convert_elements W fac (cast_type_of type fac) (Array elems)
                         (length elems) 0 [] Qnil = (k, hs, ks')"
    by blast
  have "map (\<lambda>j. Destroy (hs ! j)) [0..<k] = map Destroy hs"
    using assms(3) by (intro nth_equalityI) auto
  with c len assms(2) show ?thesis
    by (simp add: create_geometry_collection_def Let_def)
qed

theorem create_all_or_nothing_witness:
  "create_geometry_collection sample_collaborators (Class ''GeometryCollectionImpl'')
     GEOS_GEOMETRYCOLLECTION (sample_factory 0)
     (Array [Array [Fixnum 0, Fixnum 0], Array [Fixnum 2, Fixnum 0], Qnil, Array [Fixnum 4, Fixnum 0]])
   = Inr (None, [Destroy (unit_square 0 0), Destroy (unit_square 2 0)])"
proof -
  let ?elems = "[Array [Fixnum 0, Fixnum 0], Array [Fixnum 2, Fixnum 0], Qnil,
                 Array [Fixnum 4, Fixnum 0]]"
  let ?hs = "[unit_square 0 0, unit_square 2 0]"
  have ok: "\<forall>j<2. fst (converted sample_collaborators (sample_factory 0)
                GEOS_GEOMETRYCOLLECTION (Array ?elems) j) = Some (?hs ! j)"
  proof (intro allI impI)
    fix j :: nat assume "j < 2"
    then have "j = 0 \<or> j = 1" by auto
    then show "fst (converted sample_collaborators (sample_factory 0)
                GEOS_GEOMETRYCOLLECTION (Array ?elems) j) = Some (?hs ! j)"
      by (auto simp: converted_def sample_collaborators_def)
  qed
  have bad: "fst (converted sample_collaborators (sample_factory 0)
                GEOS_GEOMETRYCOLLECTION (Array ?elems) 2) = None"
    by (simp add: converted_def sample_collaborators_def)
  show ?thesis
    using create_all_or_nothing[of ?elems 2 ?hs sample_collaborators "sample_factory 0"
        GEOS_GEOMETRYCOLLECTION "Class ''GeometryCollectionImpl''"] ok bad
    by simp
qed

lemma create_success_klasses:
  assumes "length elems < 2 ^ 32"
    and "create_geometry_collection W module type fac (Array elems) = Inr (Some obj, calls)"
  shows "klasses obj
         = tag_array (map (\<lambda>j. snd (converted W fac type (Array elems) j)) [0..<length elems])"
proof -
  from assms(1) have len: "length elems mod 2 ^ 32 = length elems" by simp
  obtain i' geoms' ks'
    where r: "convert_elements W fac (cast_type_of type fac) (Array elems) (length elems) 0 []
                Qnil = (i', geoms', ks')"
    by (metis prod_cases3)
  note R = convert_elements_result[OF r, simplified]
  from assms(2) r len have i': "i' = length elems"
    by (auto simp: create_geometry_collection_def Let_def split: if_splits)
  from assms(2) r len i' have "klasses obj = ks'"
    by (auto simp: create_geometry_collection_def Let_def
             split: if_splits option.splits prod.splits)
  also have "ks' = tag_array (map (\<lambda>j. snd (converted W fac type (Array elems) j))
                                 [0..<length elems])"
    using R i' fold_store_klass[of "\<lambda>j. snd (converted W fac type (Array elems) j)"] by simp
  finally show ?thesis .
qed

lemma tag_array_backfilled:
  "tag_array ts =
     (if \<forall>t \<in> set ts. t = Qnil then Qnil
      else Array (replicate (length (takeWhile (\<lambda>t. t = Qnil) ts)) Qnil
                  @ drop (length (takeWhile (\<lambda>t. t = Qnil) ts)) ts))"
proof -
  let ?k = "length (takeWhile (\<lambda>t. t = Qnil) ts)"
  have "\<forall>t \<in> set (takeWhile (\<lambda>t. t = Qnil) ts). t = Qnil"
    by (auto dest: set_takeWhileD)
  then have "takeWhile (\<lambda>t. t = Qnil) ts = replicate ?k Qnil"
    by (metis replicate_length_same)
  moreover have "take ?k ts = takeWhile (\<lambda>t. t = Qnil) ts"
    by (rule takeWhile_eq_take[symmetric])
  ultimately have "replicate ?k Qnil @ drop ?k ts = ts"
    by (metis append_take_drop_id)
  then show ?thesis by (simp add: tag_array_def)
qed

lemma store_klass_steps:
  "store_klass i Qnil Qnil = Qnil"
  "t \<noteq> Qnil \<Longrightarrow> store_klass i Qnil t = Array (replicate i Qnil @ [t])"
  "store_klass i (Array xs) t = Array (xs @ [t])"
  by (simp_all add: store_klass_def NIL_P_def push_nils_Array)

text \<open>
  C8. In a collection that was constructed, the tag array is \<^verbatim>\<open>nil\<close> when no element
  converted with a tag. Otherwise, with \<open>k\<close> the index of the first element that
  converted with a tag, it is an array of as many entries as there are elements: \<open>k\<close>
  entries \<^verbatim>\<open>nil\<close> followed by the tags of the elements from \<open>k\<close> on. It is built
  incrementally: an absent array stays absent on an absent tag, is created on the first
  tag present, as \<open>i\<close> entries \<^verbatim>\<open>nil\<close> and the tag, and once present takes every
  tag, absent or not. The array length is one that the \<^verbatim>\<open>unsigned int\<close> holding it
  can represent.
\<close>

theorem klasses_sparse:
  assumes "length elems < 2 ^ 32"
    and "create_geometry_collection W module type fac (Array elems) = Inr (Some obj, calls)"
    and "tags = map (\<lambda>j. snd (converted W fac type (Array elems) j)) [0..<length elems]"
    and "k = length (takeWhile (\<lambda>t. t = Qnil) tags)"
  shows "((\<forall>t \<in> set tags. t = Qnil) \<longrightarrow> klasses obj = Qnil)
       \<and> ((\<exists>t \<in> set tags. t \<noteq> Qnil) \<longrightarrow>
            klasses obj = Array (replicate k Qnil @ drop k tags)
          \<and> length (replicate k Qnil @ drop k tags) = length elems
          \<and> k < length tags \<and> tags ! k \<noteq> Qnil)
       \<and> store_klass i Qnil Qnil = Qnil
       \<and> (t \<noteq> Qnil \<longrightarrow> store_klass i Qnil t = Array (replicate i Qnil @ [t]))
       \<and> store_klass i (Array xs) t = Array (xs @ [t])"
proof -
  have kl: "klasses obj = tag_array tags"
    using create_success_klasses[OF assms(1,2)] assms(3) by simp
  have k_le: "k \<le> length tags"
    unfolding assms(4) by (rule length_takeWhile_le)
  have len: "length tags = length elems"
    using assms(3) by simp
  have first: "k < length tags \<and> tags ! k \<noteq> Qnil" if "\<exists>t \<in> set tags. t \<noteq> Qnil"
  proof -
    have "k \<noteq> length tags"
    proof
      assume "k = length tags"
      then have "takeWhile (\<lambda>t. t = Qnil) tags = tags"
        unfolding assms(4) using takeWhile_eq_take[of "\<lambda>t. t = Qnil" tags] by simp
      then have "\<forall>t \<in> set tags. t = Qnil"
        by (metis set_takeWhileD)
      with that show False by blast
    qed
    with k_le have "k < length tags" by simp
    then show ?thesis
      unfolding assms(4) using nth_length_takeWhile[of "\<lambda>t. t = Qnil" tags] by simp
  qed
  show ?thesis
    using kl tag_array_backfilled[of tags] first k_le len store_klass_steps assms(4)
    by auto
qed

lemma sample_create_tagged:
  "create_geometry_collection sample_collaborators (Class ''MultiPolygonImpl'')
       GEOS_MULTIPOLYGON (sample_factory 0)
       (Array [Array [Fixnum 0, Fixnum 0], Array [Fixnum 2, Fixnum 0, Class ''Square''],
               Array [Fixnum 4, Fixnum 0]])
   = Inr (Some \<lparr> obj_class = Class ''MultiPolygonImpl'',
                  geom = Some (Geometry GEOS_MULTIPOLYGON 3
                           [Some (unit_square 0 0), Some (unit_square 2 0), Some (unit_square 4 0)] []),
                  factory = sample_factory 0,
                  klasses = Array [Qnil, Class ''Square'', Qnil] \<rparr>,
          [CreateCollection GEOS_MULTIPOLYGON [unit_square 0 0, unit_square 2 0, unit_square 4 0],
           RelatePattern (unit_square 2 0) (unit_square 0 0) ''2********'',
           RelatePattern (unit_square 2 0) (unit_square 0 0) ''****1****'',
           RelatePattern (unit_square 4 0) (unit_square 0 0) ''2********'',
           RelatePattern (unit_square 4 0) (unit_square 0 0) ''****1****'',
           RelatePattern (unit_square 4 0) (unit_square 2 0) ''2********'',
           RelatePattern (unit_square 4 0) (unit_square 2 0) ''****1****''])"
  by (simp add: create_geometry_collection_def cast_type_of_def convert_elements.simps
        check_pairs.simps check_pairs_inner.simps store_klass_def NIL_P_def
        sample_collaborators_def sample_factory_def unit_square_relate_def unit_square_def
        pattern_matches_def Let_def)

theorem klasses_sparse_witness:
  "create_geometry_collection sample_collaborators (Class ''MultiPolygonImpl'')
     GEOS_MULTIPOLYGON (sample_factory 0)
     (Array [Array [Fixnum 0, Fixnum 0], Array [Fixnum 2, Fixnum 0, Class ''Square''],
             Array [Fixnum 4, Fixnum 0]])
   = Inr (Some \<lparr> obj_class = Class ''MultiPolygonImpl'',
                  geom = Some (Geometry GEOS_MULTIPOLYGON 3
                           [Some (unit_square 0 0), Some (unit_square 2 0), Some (unit_square 4 0)] []),
                  factory = sample_factory 0,
                  klasses = Array [Qnil, Class ''Square'', Qnil] \<rparr>,
          [CreateCollection GEOS_MULTIPOLYGON [unit_square 0 0, unit_square 2 0, unit_square 4 0],
           RelatePattern (unit_square 2 0) (unit_square 0 0) ''2********'',
           RelatePattern (unit_square 2 0) (unit_square 0 0) ''****1****'',
           RelatePattern (unit_square 4 0) (unit_square 0 0) ''2********'',
           RelatePattern (unit_square 4 0) (unit_square 0 0) ''****1****'',
           RelatePattern (unit_square 4 0) (unit_square 2 0) ''2********'',
           RelatePattern (unit_square 4 0) (unit_square 2 0) ''****1****''])
   \<and> klasses \<lparr> obj_class = Class ''MultiPolygonImpl'',
                geom = Some (Geometry GEOS_MULTIPOLYGON 3
                         [Some (unit_square 0 0), Some (unit_square 2 0), Some (unit_square 4 0)] []),
                factory = sample_factory 0,
                klasses = Array [Qnil, Class ''Square'', Qnil] \<rparr>
     = Array (replicate 1 Qnil @ drop 1 [Qnil, Class ''Square'', Qnil])"
proof -
  let ?elems = "[Array [Fixnum 0, Fixnum 0], Array [Fixnum 2, Fixnum 0, Class ''Square''],
                 Array [Fixnum 4, Fixnum 0]]"
  have tags: "map (\<lambda>j. snd (converted sample_collaborators (sample_factory 0) GEOS_MULTIPOLYGON
                              (Array ?elems) j)) [0..<length ?elems]
              = [Qnil, Class ''Square'', Qnil]"
    by (simp add: converted_def sample_collaborators_def)
  note T = klasses_sparse[OF _ sample_create_tagged refl refl, of 0 Qnil "[]", unfolded tags]
  have "klasses \<lparr> obj_class = Class ''MultiPolygonImpl'',
                  geom = Some (Geometry GEOS_MULTIPOLYGON 3
                           [Some (unit_square 0 0), Some (unit_square 2 0), Some (unit_square 4 0)] []),
                  factory = sample_factory 0,
                  klasses = Array [Qnil, Class ''Square'', Qnil] \<rparr>
        = Array (replicate 1 Qnil @ drop 1 [Qnil, Class ''Square'', Qnil])"
    using T by simp
  with sample_create_tagged show ?thesis by simp
qed

section \<open>Properties of the pairwise check\<close>

lemma up_to_first_Nil [simp]: "up_to_first P [] = []"
  by (simp add: up_to_first_def)

lemma up_to_first_Cons [simp]:
  "up_to_first P (x # xs) = (if P x then [x] else x # up_to_first P xs)"
  by (simp add: up_to_first_def)

lemma up_to_first_append:
  "up_to_first P (xs @ ys)
   = (if \<exists>x \<in> set xs. P x then up_to_first P xs else xs @ up_to_first P ys)"
  by (induction xs) auto

lemma up_to_first_none: "\<not> (\<exists>x \<in> set xs. P x) \<Longrightarrow> up_to_first P xs = xs"
  by (induction xs) auto

lemma pair_calls_problem:
  "(\<exists>c \<in> set (pair_calls geoms i j). reports_problem W c)
   \<longleftrightarrow> GEOSRelatePattern_r W (geoms ! i) (geoms ! j) ''2********'' \<noteq> 0
     \<or> GEOSRelatePattern_r W (geoms ! i) (geoms ! j) ''****1****'' \<noteq> 0"
  by (auto simp: pair_calls_def)

lemma check_pairs_inner_result:
  assumes "check_pairs_inner W geoms i j = (p, calls)" and "j \<le> i"
  shows "calls = up_to_first (reports_problem W) (concat (map (pair_calls geoms i) [j..<i]))
       \<and> (p \<noteq> 0 \<longleftrightarrow>
            (\<exists>c \<in> set (concat (map (pair_calls geoms i) [j..<i])). reports_problem W c))"
  using assms
proof (induction W geoms i j arbitrary: p calls rule: check_pairs_inner.induct)
  case (1 W geoms i j)
  show ?case
  proof (cases "j < i")
    case False
    with "1.prems" show ?thesis
      by (auto simp: check_pairs_inner.simps)
  next
    case lt: True
    then have up: "[j..<i] = j # [j + 1..<i]"
      by (simp add: upt_conv_Cons)
    let ?a = "GEOSRelatePattern_r W (geoms ! i) (geoms ! j) ''2********''"
    let ?b = "GEOSRelatePattern_r W (geoms ! i) (geoms ! j) ''****1****''"
    show ?thesis
    proof (cases "?a \<noteq> 0")
      case True
      have "check_pairs_inner W geoms i j
            = (?a, [RelatePattern (geoms ! i) (geoms ! j) ''2********''])"
        using lt True by (subst check_pairs_inner.simps) (simp add: Let_def)
      with True "1.prems" show ?thesis
        by (auto simp: up pair_calls_def)
    next
      case a: False
      show ?thesis
      proof (cases "?b \<noteq> 0")
        case True
        have "check_pairs_inner W geoms i j = (?b, pair_calls geoms i j)"
          using lt a True by (subst check_pairs_inner.simps) (simp add: Let_def pair_calls_def)
        with a True "1.prems" show ?thesis
          by (auto simp: up pair_calls_def)
      next
        case b: False
        obtain p' calls' where r: "check_pairs_inner W geoms i (j + 1) = (p', calls')"
          by (cases "check_pairs_inner W geoms i (j + 1)")
        from lt have le: "j + 1 \<le> i" by simp
        have IH: "calls' = up_to_first (reports_problem W)
                             (concat (map (pair_calls geoms i) [j + 1..<i]))
           \<and> (p' \<noteq> 0 \<longleftrightarrow>
                (\<exists>c \<in> set (concat (map (pair_calls geoms i) [j + 1..<i])). reports_problem W c))"
          using "1.IH"[OF lt refl refl refl _ refl _ r le] a b by simp
        have "check_pairs_inner W geoms i j = (p', pair_calls geoms i j @ calls')"
          using lt a b r by (subst check_pairs_inner.simps) (simp add: Let_def pair_calls_def)
        with "1.prems"(1) have "p = p'" "calls = pair_calls geoms i j @ calls'"
          by simp_all
        moreover have "\<not> (\<exists>c \<in> set (pair_calls geoms i j). reports_problem W c)"
          using a b by (simp add: pair_calls_problem)
        ultimately show ?thesis
          using IH by (auto simp: up up_to_first_append)
      qed
    qed
  qed
qed

lemma check_pairs_result:
  assumes "check_pairs W geoms len i = (p, calls)"
  shows "calls = up_to_first (reports_problem W)
                   (concat (map (\<lambda>i. concat (map (pair_calls geoms i) [0..<i])) [i..<len]))
       \<and> (p \<noteq> 0 \<longleftrightarrow>
            (\<exists>c \<in> set (concat (map (\<lambda>i. concat (map (pair_calls geoms i) [0..<i])) [i..<len])).
               reports_problem W c))"
  using assms
proof (induction W geoms len i arbitrary: p calls rule: check_pairs.induct)
  case (1 W geoms len i)
  let ?row = "\<lambda>i. concat (map (pair_calls geoms i) [0..<i])"
  show ?case
  proof (cases "i < len")
    case False
    with "1.prems" show ?thesis
      by (auto simp: check_pairs.simps)
  next
    case lt: True
    then have up: "[i..<len] = i # [i + 1..<len]"
      by (simp add: upt_conv_Cons)
    obtain p1 calls1 where inner: "check_pairs_inner W geoms i 0 = (p1, calls1)"
      by (cases "check_pairs_inner W geoms i 0")
    note I = check_pairs_inner_result[OF inner, simplified]
    show ?thesis
    proof (cases "p1 \<noteq> 0")
      case True
      have "check_pairs W geoms len i = (p1, calls1)"
        using lt inner True by (subst check_pairs.simps) simp
      with "1.prems" have "p = p1" "calls = calls1" by simp_all
      with I True show ?thesis
        by (auto simp: up up_to_first_append)
    next
      case False
      obtain p2 calls2 where outer: "check_pairs W geoms len (i + 1) = (p2, calls2)"
        by (cases "check_pairs W geoms len (i + 1)")
      have IH: "calls2 = up_to_first (reports_problem W) (concat (map ?row [i + 1..<len]))
           \<and> (p2 \<noteq> 0 \<longleftrightarrow> (\<exists>c \<in> set (concat (map ?row [i + 1..<len])). reports_problem W c))"
        using "1.IH"[OF lt inner[symmetric] _ outer] False by simp
      have "check_pairs W geoms len i = (p2, calls1 @ calls2)"
        using lt inner False outer by (subst check_pairs.simps) simp
      with "1.prems" have pc: "p = p2" "calls = calls1 @ calls2" by simp_all
      from I False have none: "\<not> (\<exists>c \<in> set (?row i). reports_problem W c)"
        and c1: "calls1 = up_to_first (reports_problem W) (?row i)"
        by auto
      from none have "up_to_first (reports_problem W) (?row i) = ?row i"
        by (rule up_to_first_none)
      with pc IH none c1 show ?thesis
        by (auto simp: up up_to_first_append)
    qed
  qed
qed

lemma all_pair_calls_problem:
  "(\<exists>c \<in> set (all_pair_calls geoms). reports_problem W c) \<longleftrightarrow> violation W geoms"
proof -
  have "(\<exists>c \<in> set (all_pair_calls geoms). reports_problem W c)
        \<longleftrightarrow> (\<exists>i \<in> {1..<length geoms}. \<exists>j \<in> {0..<i}.
               \<exists>c \<in> set (pair_calls geoms i j). reports_problem W c)"
    by (auto simp: all_pair_calls_def)
  also have "\<dots> \<longleftrightarrow> (\<exists>i<length geoms. \<exists>j<i.
               \<exists>c \<in> set (pair_calls geoms i j). reports_problem W c)"
  proof
    assume "\<exists>i \<in> {1..<length geoms}. \<exists>j \<in> {0..<i}.
               \<exists>c \<in> set (pair_calls geoms i j). reports_problem W c"
    then obtain i j where ij: "i \<in> {1..<length geoms}" "j \<in> {0..<i}"
      "\<exists>c \<in> set (pair_calls geoms i j). reports_problem W c"
      by blast
    then have "i < length geoms" "j < i" by auto
    with ij(3) show "\<exists>i<length geoms. \<exists>j<i. \<exists>c \<in> set (pair_calls geoms i j). reports_problem W c"
      by blast
  next
    assume "\<exists>i<length geoms. \<exists>j<i. \<exists>c \<in> set (pair_calls geoms i j). reports_problem W c"
    then obtain i j where ij: "i < length geoms" "j < i"
      "\<exists>c \<in> set (pair_calls geoms i j). reports_problem W c"
      by blast
    then have "i \<in> {1..<length geoms}" "j \<in> {0..<i}" by auto
    with ij(3) show "\<exists>i \<in> {1..<length geoms}. \<exists>j \<in> {0..<i}.
               \<exists>c \<in> set (pair_calls geoms i j). reports_problem W c"
      by blast
  qed
  finally show ?thesis
    by (simp add: violation_def pair_calls_problem)
qed

lemma convert_elements_all_succeed:
  assumes "length hs = len"
    and ok: "\<forall>j<len. fst (converted W fac type array j) = Some (hs ! j)"
  shows "convert_elements W fac (cast_type_of type fac) array len 0 [] Qnil
         = (len, hs, tag_array (map (\<lambda>j. snd (converted W fac type array j)) [0..<len]))"
proof -
  obtain i' geoms' ks'
    where r: "convert_elements W fac (cast_type_of type fac) array len 0 [] Qnil = (i', geoms', ks')"
    by (metis prod_cases3)
  note R = convert_elements_result[OF r, simplified]
  have "\<not> i' < len"
  proof
    assume "i' < len"
    with R have "fst (converted W fac type array i') = None" by simp
    with ok \<open>i' < len\<close> show False by simp
  qed
  with R have i': "i' = len" by simp
  have "geoms' = map (\<lambda>j. the (fst (converted W fac type array j))) [0..<len]"
    using R i' by simp
  also have "\<dots> = hs"
    using assms by (intro nth_equalityI) auto
  finally have "geoms' = hs" .
  moreover have "ks' = tag_array (map (\<lambda>j. snd (converted W fac type array j)) [0..<len])"
    using R i' fold_store_klass[of "\<lambda>j. snd (converted W fac type array j)"] by simp
  ultimately show ?thesis using r i' by simp
qed

lemma check_pairs_all:
  assumes "check_pairs W hs (length hs) 1 = (p, calls)"
  shows "calls = up_to_first (reports_problem W) (all_pair_calls hs)"
    and "p \<noteq> 0 \<longleftrightarrow> violation W hs"
  using check_pairs_result[OF assms] all_pair_calls_problem[of hs W]
  by (simp_all add: all_pair_calls_def)

lemma create_validated:
  assumes "length elems < 2 ^ 32" and "length hs = length elems"
    and "\<forall>j<length elems. fst (converted W fac GEOS_MULTIPOLYGON (Array elems) j) = Some (hs ! j)"
    and "GEOSGeom_createCollection_r W GEOS_MULTIPOLYGON hs = Some collection"
    and "flags fac AND 1 = 0"
  shows "create_geometry_collection W module GEOS_MULTIPOLYGON fac (Array elems)
         = Inr (if violation W hs then None
                else Some ((rgeo_wrap_geos_geometry W fac collection module)
                        \<lparr>klasses := tag_array (map (\<lambda>j. snd (converted W fac GEOS_MULTIPOLYGON
                                                           (Array elems) j)) [0..<length elems])\<rparr>),
                CreateCollection GEOS_MULTIPOLYGON hs
                  # up_to_first (reports_problem W) (all_pair_calls hs)
                  @ (if violation W hs then [Destroy collection] else []))"
proof -
  from assms(1) have len: "length elems mod 2 ^ 32 = length elems" by simp
  note c = convert_elements_all_succeed[OF assms(2,3)]
  obtain p calls where cp: "check_pairs W hs (length hs) 1 = (p, calls)"
    by (cases "check_pairs W hs (length hs) 1")
  note P = check_pairs_all[OF cp]
  show ?thesis
  proof (cases "violation W hs")
    case True
    with P have "p \<noteq> 0" by simp
    with c len cp assms(2,4,5) P(1) True show ?thesis
      by (simp add: create_geometry_collection_def Let_def)
  next
    case False
    with P have "p = 0" by simp
    with c len cp assms(2,4,5) P(1) False show ?thesis
      by (simp add: create_geometry_collection_def Let_def)
  qed
qed

lemma create_unvalidated:
  assumes "length elems < 2 ^ 32" and "length hs = length elems"
    and "\<forall>j<length elems. fst (converted W fac type (Array elems) j) = Some (hs ! j)"
    and "GEOSGeom_createCollection_r W type hs = Some collection"
    and "type \<noteq> GEOS_MULTIPOLYGON \<or> flags fac AND 1 \<noteq> 0"
  shows "create_geometry_collection W module type fac (Array elems)
         = Inr (Some ((rgeo_wrap_geos_geometry W fac collection module)
                  \<lparr>klasses := tag_array (map (\<lambda>j. snd (converted W fac type (Array elems) j))
                                          [0..<length elems])\<rparr>),
                [CreateCollection type hs])"
proof -
  from assms(1) have len: "length elems mod 2 ^ 32 = length elems" by simp
  note c = convert_elements_all_succeed[OF assms(2,3)]
  from c len assms(2,4,5) show ?thesis
    by (auto simp: create_geometry_collection_def Let_def)
qed

text \<open>
  C2. Let every element convert (to the handles \<open>hs\<close>) and the engine assemble the
  collection; \<open>obj\<close> is the wrapped collection with its tag array. For a MultiPolygon
  with the skip flag (bit 0 of the factory flags) clear, the constructor asks the engine
  about the pairs in the order of \<open>all_pair_calls\<close> (ascending \<open>i\<close>, then ascending
  \<open>j < i\<close>, first \<open>2********\<close> then \<open>****1****\<close>) and stops after the first
  call that reports a problem; it returns \<^verbatim>\<open>nil\<close>, after destroying the assembled
  collection, exactly when some pair \<open>j < i\<close> makes one of the two calls report a problem,
  and the wrapped collection otherwise. For any other kind, or with the skip flag set, it
  makes no such call and returns the wrapped collection. The array length is one that the
  \<^verbatim>\<open>unsigned int\<close> holding it can represent.
\<close>

theorem multi_polygon_validation:
  assumes "length elems < 2 ^ 32" and "length hs = length elems"
    and "\<forall>j<length elems. fst (converted W fac type (Array elems) j) = Some (hs ! j)"
    and "GEOSGeom_createCollection_r W type hs = Some collection"
    and "obj = (rgeo_wrap_geos_geometry W fac collection module)
                 \<lparr>klasses := tag_array (map (\<lambda>j. snd (converted W fac type (Array elems) j))
                                         [0..<length elems])\<rparr>"
  shows "(type = GEOS_MULTIPOLYGON \<and> flags fac AND 1 = 0 \<longrightarrow>
            create_geometry_collection W module type fac (Array elems)
            = Inr (if violation W hs then None else Some obj,
                   CreateCollection type hs
                     # up_to_first (reports_problem W) (all_pair_calls hs)
                     @ (if violation W hs then [Destroy collection] else [])))
       \<and> (type \<noteq> GEOS_MULTIPOLYGON \<or> flags fac AND 1 \<noteq> 0 \<longrightarrow>
            create_geometry_collection W module type fac (Array elems)
            = Inr (Some obj, [CreateCollection type hs]))"
  using create_validated[of elems hs W fac collection module]
    create_unvalidated[OF assms(1-4), of module] assms
  by blast

lemma violation_two:
  "violation W [h0, h1]
   \<longleftrightarrow> GEOSRelatePattern_r W h1 h0 ''2********'' \<noteq> 0
     \<or> GEOSRelatePattern_r W h1 h0 ''****1****'' \<noteq> 0"
proof -
  have "(\<exists>i<Suc (Suc 0). \<exists>j<i. P i j) \<longleftrightarrow> P 1 0" for P :: "nat \<Rightarrow> nat \<Rightarrow> bool"
  proof
    assume "\<exists>i<Suc (Suc 0). \<exists>j<i. P i j"
    then obtain i j where "i < Suc (Suc 0)" "j < i" "P i j" by blast
    moreover from this have "i = 1" "j = 0" by auto
    ultimately show "P 1 0" by simp
  next
    assume "P 1 0"
    then show "\<exists>i<Suc (Suc 0). \<exists>j<i. P i j"
      by (intro exI[of _ 1] conjI exI[of _ 0]) auto
  qed
  from this[of "\<lambda>i j. GEOSRelatePattern_r W ([h0, h1] ! i) ([h0, h1] ! j) ''2********'' \<noteq> 0
                     \<or> GEOSRelatePattern_r W ([h0, h1] ! i) ([h0, h1] ! j) ''****1****'' \<noteq> 0"]
  show ?thesis
    by (simp add: violation_def)
qed

lemma all_pair_calls_two:
  "all_pair_calls [h0, h1]
   = [RelatePattern h1 h0 ''2********'', RelatePattern h1 h0 ''****1****'']"
  by (simp add: all_pair_calls_def pair_calls_def)

lemma sample_converted_two:
  "\<forall>j<length [Array [Fixnum x0, Fixnum y0], Array [Fixnum x1, Fixnum y1]].
     fst (converted sample_collaborators fac type
            (Array [Array [Fixnum x0, Fixnum y0], Array [Fixnum x1, Fixnum y1]]) j)
     = Some ([unit_square x0 y0, unit_square x1 y1] ! j)"
proof (intro allI impI)
  fix j assume "j < length [Array [Fixnum x0, Fixnum y0], Array [Fixnum x1, Fixnum y1]]"
  then have "j = 0 \<or> j = 1" by auto
  then show "fst (converted sample_collaborators fac type
            (Array [Array [Fixnum x0, Fixnum y0], Array [Fixnum x1, Fixnum y1]]) j)
     = Some ([unit_square x0 y0, unit_square x1 y1] ! j)"
    by (auto simp: converted_def sample_collaborators_def)
qed

lemma sample_createCollection:
  "GEOSGeom_createCollection_r sample_collaborators t gs
   = Some (Geometry t (int (length gs)) (map Some gs) [])"
  by (simp add: sample_collaborators_def)

lemma sample_relate:
  "GEOSRelatePattern_r sample_collaborators a b p
   = (if pattern_matches (unit_square_relate a b) p then 1 else 0)"
  by (simp add: sample_collaborators_def)

lemma sample_flags: "flags (sample_factory fl) = fl"
  by (simp add: sample_factory_def)

theorem multi_polygon_validation_witness:
  "create_geometry_collection sample_collaborators (Class ''MultiPolygonImpl'') GEOS_MULTIPOLYGON
     (sample_factory 0) (Array [Array [Fixnum 0, Fixnum 0], Array [Fixnum 0, Fixnum 0]])
   = Inr (None, [CreateCollection GEOS_MULTIPOLYGON [unit_square 0 0, unit_square 0 0],
                 RelatePattern (unit_square 0 0) (unit_square 0 0) ''2********'',
                 Destroy (Geometry GEOS_MULTIPOLYGON 2
                            [Some (unit_square 0 0), Some (unit_square 0 0)] [])])
   \<and> create_geometry_collection sample_collaborators (Class ''MultiPolygonImpl'')
       GEOS_MULTIPOLYGON (sample_factory 1)
       (Array [Array [Fixnum 0, Fixnum 0], Array [Fixnum 0, Fixnum 0]])
     = Inr (Some \<lparr> obj_class = Class ''MultiPolygonImpl'',
                    geom = Some (Geometry GEOS_MULTIPOLYGON 2
                                   [Some (unit_square 0 0), Some (unit_square 0 0)] []),
                    factory = sample_factory 1, klasses = Qnil \<rparr>,
            [CreateCollection GEOS_MULTIPOLYGON [unit_square 0 0, unit_square 0 0]])"
proof -
  let ?elems = "[Array [Fixnum 0, Fixnum 0], Array [Fixnum 0, Fixnum 0]]"
  let ?hs = "[unit_square 0 0, unit_square 0 0]"
  let ?coll = "Geometry GEOS_MULTIPOLYGON 2 [Some (unit_square 0 0), Some (unit_square 0 0)] []"
  have rel: "GEOSRelatePattern_r sample_collaborators (unit_square 0 0) (unit_square 0 0)
               ''2********'' = 1"
    by (simp add: sample_relate unit_square_relate_def unit_square_def pattern_matches_def)
  then have v: "violation sample_collaborators ?hs"
    by (simp add: violation_two)
  have cc: "GEOSGeom_createCollection_r sample_collaborators GEOS_MULTIPOLYGON ?hs = Some ?coll"
    by (simp add: sample_createCollection)
  have tags: "tag_array (map (\<lambda>j. snd (converted sample_collaborators fac GEOS_MULTIPOLYGON
                                       (Array ?elems) j)) [0..<length ?elems]) = Qnil" for fac
    by (simp add: tag_array_def converted_def sample_collaborators_def)
  note on = multi_polygon_validation[of ?elems ?hs sample_collaborators "sample_factory 0"
      GEOS_MULTIPOLYGON ?coll _ "Class ''MultiPolygonImpl''", OF _ _ sample_converted_two cc refl]
  note off = multi_polygon_validation[of ?elems ?hs sample_collaborators "sample_factory 1"
      GEOS_MULTIPOLYGON ?coll _ "Class ''MultiPolygonImpl''", OF _ _ sample_converted_two cc refl]
  have "create_geometry_collection sample_collaborators (Class ''MultiPolygonImpl'')
          GEOS_MULTIPOLYGON (sample_factory 0) (Array ?elems)
        = Inr (None, [CreateCollection GEOS_MULTIPOLYGON ?hs,
                      RelatePattern (unit_square 0 0) (unit_square 0 0) ''2********'',
                      Destroy ?coll])"
    using on v rel by (simp add: sample_flags all_pair_calls_two)
  moreover
  have "create_geometry_collection sample_collaborators (Class ''MultiPolygonImpl'')
          GEOS_MULTIPOLYGON (sample_factory 1) (Array ?elems)
        = Inr (Some \<lparr> obj_class = Class ''MultiPolygonImpl'', geom = Some ?coll,
                       factory = sample_factory 1, klasses = Qnil \<rparr>,
               [CreateCollection GEOS_MULTIPOLYGON ?hs])"
    using off tags by (simp add: sample_flags) (simp add: sample_collaborators_def)
  ultimately show ?thesis by blast
qed

text \<open>
  C7 does not hold. Two polygons that share a boundary edge, and no interior point, have a
  boundary-boundary intersection of dimension 1: their DE-9IM matrix
  \<open>FF2F11212\<close> does not match \<open>2********\<close> and does
  match \<open>****1****\<close>, the second pattern of the check. In the sample engine the
  squares at \<open>(0, 0)\<close> and \<open>(1, 0)\<close> share the edge from \<open>(1, 0)\<close> to \<open>(1, 1)\<close>, and
  with validation enabled the constructor destroys the assembled collection and returns
  \<^verbatim>\<open>nil\<close>.
\<close>

theorem multi_polygon_shared_edge_counterexample:
  "unit_square_relate (unit_square 1 0) (unit_square 0 0) = ''FF2F11212''
   \<and> \<not> pattern_matches ''FF2F11212'' ''2********''
   \<and> flags (sample_factory 0) AND 1 = 0
   \<and> \<not> constructed (cmethod_multi_polygon_create sample_collaborators
                        (Class ''MultiPolygonImpl'') (sample_factory 0)
                        (Array [Array [Fixnum 0, Fixnum 0], Array [Fixnum 1, Fixnum 0]]))
   \<and> cmethod_multi_polygon_create sample_collaborators (Class ''MultiPolygonImpl'')
       (sample_factory 0) (Array [Array [Fixnum 0, Fixnum 0], Array [Fixnum 1, Fixnum 0]])
     = Inr (None, [CreateCollection GEOS_MULTIPOLYGON [unit_square 0 0, unit_square 1 0],
                   RelatePattern (unit_square 1 0) (unit_square 0 0) ''2********'',
                   RelatePattern (unit_square 1 0) (unit_square 0 0) ''****1****'',
                   Destroy (Geometry GEOS_MULTIPOLYGON 2
                              [Some (unit_square 0 0), Some (unit_square 1 0)] [])])"
  by (simp add: constructed_def
        cmethod_multi_polygon_create_def create_geometry_collection_def cast_type_of_def
        convert_elements.simps check_pairs.simps check_pairs_inner.simps store_klass_def
        NIL_P_def sample_collaborators_def sample_factory_def unit_square_relate_def
        unit_square_def pattern_matches_def Let_def)

text \<open>
  C7, amended. With validation enabled, two polygons that convert and that the engine
  assembles make a MultiPolygon exactly when \<^verbatim>\<open>GEOSRelatePattern_r\<close>, asked about the
  second polygon against the first, answers zero for both \<open>2********\<close> and
  \<open>****1****\<close>.
\<close>

theorem multi_polygon_two_polygons:
  assumes "fst (rgeo_convert_to_detached_geos_geometry W e0 fac (feature_polygon (globals fac)))
           = Some h0"
    and "fst (rgeo_convert_to_detached_geos_geometry W e1 fac (feature_polygon (globals fac)))
         = Some h1"
    and "GEOSGeom_createCollection_r W GEOS_MULTIPOLYGON [h0, h1] = Some collection"
    and "flags fac AND 1 = 0"
  shows "constructed (cmethod_multi_polygon_create W module fac (Array [e0, e1]))
         \<longleftrightarrow> GEOSRelatePattern_r W h1 h0 ''2********'' = 0
           \<and> GEOSRelatePattern_r W h1 h0 ''****1****'' = 0"
proof -
  have conv: "\<forall>j<length [e0, e1].
                fst (converted W fac GEOS_MULTIPOLYGON (Array [e0, e1]) j) = Some ([h0, h1] ! j)"
  proof (intro allI impI)
    fix j assume "j < length [e0, e1]"
    then have "j = 0 \<or> j = 1" by auto
    with assms(1,2)
    show "fst (converted W fac GEOS_MULTIPOLYGON (Array [e0, e1]) j) = Some ([h0, h1] ! j)"
      by (auto simp: converted_def cast_type_of_def)
  qed
  note r = create_validated[OF _ _ conv assms(3,4), of module, simplified]
  show ?thesis
    unfolding cmethod_multi_polygon_create_def constructed_def r
    by (auto simp: violation_two)
qed

theorem multi_polygon_two_polygons_witness:
  "constructed (cmethod_multi_polygon_create sample_collaborators (Class ''MultiPolygonImpl'')
                  (sample_factory 0)
                  (Array [Array [Fixnum 0, Fixnum 0], Array [Fixnum 1, Fixnum 1]]))"
proof -
  have "unit_square_relate (unit_square 1 1) (unit_square 0 0) = ''FF2F01212''"
    by (simp add: unit_square_relate_def unit_square_def)
  then have "GEOSRelatePattern_r sample_collaborators (unit_square 1 1) (unit_square 0 0)
               ''2********'' = 0
           \<and> GEOSRelatePattern_r sample_collaborators (unit_square 1 1) (unit_square 0 0)
               ''****1****'' = 0"
    by (simp add: sample_relate pattern_matches_def)
  then show ?thesis
    using multi_polygon_two_polygons[of sample_collaborators "Array [Fixnum 0, Fixnum 0]"
        "sample_factory 0" "unit_square 0 0" "Array [Fixnum 1, Fixnum 1]" "unit_square 1 1"
        "Geometry GEOS_MULTIPOLYGON 2 [Some (unit_square 0 0), Some (unit_square 1 1)] []"
        "Class ''MultiPolygonImpl''"]
    by (simp add: sample_collaborators_def sample_factory_def)
qed

section \<open>Properties of the traversal\<close>

lemma each_loop_unfold:
  "each_loop W rb_yield self self_geom i len s
   = (if i < len then
        (case clone_at W self self_geom i of
           None \<Rightarrow> each_loop W rb_yield self self_geom (i + 1) len s
         | Some e \<Rightarrow>
             (case rb_yield e s of
                Inl x \<Rightarrow> Inl x
              | Inr s' \<Rightarrow> each_loop W rb_yield self self_geom (i + 1) len s'))
      else Inr s)"
  by (subst each_loop.simps) (simp add: clone_at_def Let_def)

lemma upt_nat_Cons:
  assumes "0 \<le> i" "i < len"
  shows "[nat i..<nat len] = nat i # [nat (i + 1)..<nat len]"
proof -
  from assms have "nat i < nat len" by simp
  then have "[nat i..<nat len] = nat i # [Suc (nat i)..<nat len]"
    by (rule upt_conv_Cons)
  moreover from assms have "Suc (nat i) = nat (i + 1)" by simp
  ultimately show ?thesis by simp
qed

lemma each_loop_visits:
  assumes "0 \<le> i" "i \<le> len"
  shows "each_loop W rb_yield self self_geom i len s
         = visit_all rb_yield
             (List.map_filter (\<lambda>j. clone_at W self self_geom (int j)) [nat i..<nat len]) s"
  using assms
proof (induction "nat (len - i)" arbitrary: i s)
  case 0
  then have "i = len" by simp
  then show ?case
    by (subst each_loop_unfold) (simp add: List.map_filter_simps)
next
  case (Suc n)
  then have lt: "i < len" by linarith
  note up = upt_nat_Cons[OF Suc.prems(1) lt]
  have IH: "each_loop W rb_yield self self_geom (i + 1) len s'
            = visit_all rb_yield
                (List.map_filter (\<lambda>j. clone_at W self self_geom (int j)) [nat (i + 1)..<nat len]) s'"
    for s'
    using Suc.hyps(2) Suc.prems lt by (intro Suc.hyps(1)) auto
  show ?case
  proof (cases "clone_at W self self_geom i")
    case None
    then show ?thesis
      using lt IH Suc.prems(1)
      by (subst each_loop_unfold) (simp add: up List.map_filter_simps)
  next
    case (Some e)
    then show ?thesis
      using lt IH Suc.prems(1)
      by (subst each_loop_unfold) (simp add: up List.map_filter_simps split: sum.splits)
  qed
qed

lemma each_visits_clones:
  assumes "geom self = Some g"
  shows "method_geometry_collection_each W rb_yield self s
         = (case visit_all rb_yield
                   (List.map_filter (\<lambda>j. clone_at W self g (int j))
                      [0..<nat (GEOSGetNumGeometries_r g)]) s of
              Inl x \<Rightarrow> Inl x
            | Inr s' \<Rightarrow> Inr (self, s'))"
proof (cases "GEOSGetNumGeometries_r g > 0")
  case True
  then show ?thesis
    using assms each_loop_visits[of 0 "GEOSGetNumGeometries_r g" W rb_yield self g s]
    by (simp add: method_geometry_collection_each_def)
next
  case False
  then have "nat (GEOSGetNumGeometries_r g) = 0" by simp
  with False assms show ?thesis
    by (simp add: method_geometry_collection_each_def List.map_filter_simps)
qed

lemma map_filter_all_Some:
  assumes "length cs = n" "\<forall>i<n. f i = Some (cs ! i)"
  shows "List.map_filter f [0..<n] = cs"
proof -
  have "List.map_filter f [0..<n] = map (\<lambda>i. cs ! i) [0..<n]"
    using assms(2) by (induction n) (simp_all add: List.map_filter_def)
  also have "\<dots> = cs"
    using map_nth[of cs] assms(1) by simp
  finally show ?thesis .
qed

lemma visit_all_record: "visit_all record_visit cs visited = Inr (visited @ cs)"
  by (induction cs arbitrary: visited) (simp_all add: record_visit_def)

text \<open>
  C9. For a collection whose engine count is \<open>n\<close> and whose \<open>n\<close> children clone, to
  \<open>cs\<close>, the traversal passes exactly the clones \<open>cs\<close> to the block, one per child in
  ascending index order: its effect on the caller's state is that of visiting \<open>cs\<close> in
  order, it ends early only if the block itself leaves, and a block that records its
  arguments has recorded exactly \<open>cs\<close> at the end (nothing when \<open>n = 0\<close>).
\<close>

theorem each_visits_every_child:
  assumes "geom self = Some g" and "GEOSGetNumGeometries_r g = int n" and "length cs = n"
    and "\<forall>i<n. clone_at W self g (int i) = Some (cs ! i)"
  shows "method_geometry_collection_each W rb_yield self s
         = (case visit_all rb_yield cs s of Inl x \<Rightarrow> Inl x | Inr s' \<Rightarrow> Inr (self, s'))
       \<and> method_geometry_collection_each W record_visit self [] = Inr (self, cs)"
proof -
  have "List.map_filter (\<lambda>j. clone_at W self g (int j)) [0..<nat (GEOSGetNumGeometries_r g)] = cs"
    using assms(2,3,4) by (simp add: map_filter_all_Some)
  then show ?thesis
    using each_visits_clones[OF assms(1), of W rb_yield s]
      each_visits_clones[OF assms(1), of W record_visit "[]"]
    by (simp add: visit_all_record)
qed

theorem each_visits_every_child_witness:
  "method_geometry_collection_each sample_collaborators record_visit
     \<lparr> obj_class = Class ''MultiPolygonImpl'',
       geom = Some (Geometry GEOS_MULTIPOLYGON 2 [Some (unit_square 0 0), Some (unit_square 2 0)] []),
       factory = sample_factory 0,
       klasses = Array [Qnil, Class ''Square''] \<rparr> []
   = Inr (\<lparr> obj_class = Class ''MultiPolygonImpl'',
            geom = Some (Geometry GEOS_MULTIPOLYGON 2
                           [Some (unit_square 0 0), Some (unit_square 2 0)] []),
            factory = sample_factory 0,
            klasses = Array [Qnil, Class ''Square''] \<rparr>,
          [\<lparr> obj_class = Qnil, geom = Some (unit_square 0 0), factory = sample_factory 0,
             klasses = Qnil \<rparr>,
           \<lparr> obj_class = Class ''Square'', geom = Some (unit_square 2 0),
             factory = sample_factory 0, klasses = Qnil \<rparr>])"
proof -
  let ?g = "Geometry GEOS_MULTIPOLYGON 2 [Some (unit_square 0 0), Some (unit_square 2 0)] []"
  let ?self = "\<lparr> obj_class = Class ''MultiPolygonImpl'', geom = Some ?g,
                 factory = sample_factory 0, klasses = Array [Qnil, Class ''Square''] \<rparr>"
  let ?cs = "[\<lparr> obj_class = Qnil, geom = Some (unit_square 0 0), factory = sample_factory 0,
                klasses = Qnil \<rparr>,
              \<lparr> obj_class = Class ''Square'', geom = Some (unit_square 2 0),
                factory = sample_factory 0, klasses = Qnil \<rparr>]"
  have clones: "\<forall>i<2. clone_at sample_collaborators ?self ?g (int i) = Some (?cs ! i)"
  proof (intro allI impI)
    fix i :: nat assume "i < 2"
    then have "i = 0 \<or> i = 1" by auto
    then show "clone_at sample_collaborators ?self ?g (int i) = Some (?cs ! i)"
      by (auto simp: clone_at_def sample_collaborators_def GEOSGetGeometryN_r_def NIL_P_def)
  qed
  note T = each_visits_every_child[of ?self ?g 2 ?cs sample_collaborators record_visit "[]",
      OF _ _ _ clones]
  show ?thesis
    by (rule T[THEN conjunct2]) (simp_all add: GEOSGetNumGeometries_r_def)
qed

section \<open>Properties of the indexed accessors\<close>

lemma impl_geometry_n_brackets:
  assumes "geom self = Some g" and "GEOSGetNumGeometries_r g = int n" and "NUM2INT v = Inr i"
  shows "impl_geometry_n W self v 1
         = Inr (if - int n \<le> i \<and> i < int n
                then clone_at W self g (if i < 0 then i + int n else i) else None)"
  using assms by (auto simp: impl_geometry_n_def clone_at_def Let_def)

lemma impl_geometry_n_no_negatives:
  assumes "geom self = Some g" and "GEOSGetNumGeometries_r g = int n" and "NUM2INT v = Inr i"
  shows "impl_geometry_n W self v 0
         = Inr (if 0 \<le> i \<and> i < int n then clone_at W self g i else None)"
  using assms by (auto simp: impl_geometry_n_def clone_at_def Let_def)

lemma impl_geometry_n_negative_forms_agree:
  assumes "geom self = Some g" and "GEOSGetNumGeometries_r g = int n"
    and "0 \<le> i" "i < int n" "int n \<le> 2 ^ 31"
  shows "impl_geometry_n W self (Fixnum (i - int n)) 1 = impl_geometry_n W self (Fixnum i) 1"
proof -
  from assms(3,4,5) have "NUM2INT (Fixnum i) = Inr i" "NUM2INT (Fixnum (i - int n)) = Inr (i - int n)"
    by auto
  then show ?thesis
    using assms
    by (simp add: impl_geometry_n_brackets[OF assms(1,2)])
qed

lemma method_brackets_no_value:
  "method_geometry_collection_brackets W self v = Inr r \<Longrightarrow> r = No_return_value"
  by (auto simp: method_geometry_collection_brackets_def split: sum.splits)

lemma method_geometry_n_no_value:
  "method_geometry_collection_geometry_n W self v = Inr r \<Longrightarrow> r = No_return_value"
  by (auto simp: method_geometry_collection_geometry_n_def split: sum.splits)

text \<open>
  C6. For an index \<open>i\<close> that \<^verbatim>\<open>NUM2INT\<close> accepts, \<^verbatim>\<open>impl_geometry_n\<close> with
  \<^verbatim>\<open>allow_negatives\<close> set does what the claim says: it yields the clone of the child at
  \<open>i\<close>, or at \<open>i + n\<close> when \<open>i\<close> is negative, with the tag stored there, and
  \<^verbatim>\<open>nil\<close> when \<open>i \<ge> n\<close> or \<open>i < -n\<close>. The method \<^verbatim>\<open>[]\<close> does not return what
  it computes: it hands back no value.
\<close>

theorem brackets_returns_no_value:
  assumes "geom self = Some g" and "GEOSGetNumGeometries_r g = int n" and "NUM2INT v = Inr i"
  shows "impl_geometry_n W self v 1
         = Inr (if - int n \<le> i \<and> i < int n
                then clone_at W self g (if i < 0 then i + int n else i) else None)
       \<and> method_geometry_collection_brackets W self v = Inr No_return_value"
  using impl_geometry_n_brackets[OF assms, of W]
  by (simp add: method_geometry_collection_brackets_def)

theorem brackets_returns_no_value_witness:
  "impl_geometry_n sample_collaborators sample_collection (Fixnum (- 1)) 1
   = Inr (Some \<lparr> obj_class = Class ''Square'', geom = Some (unit_square 2 0),
                  factory = sample_factory 0, klasses = Qnil \<rparr>)
   \<and> method_geometry_collection_brackets sample_collaborators sample_collection (Fixnum (- 1))
     = Inr No_return_value"
  using brackets_returns_no_value[of sample_collection
      "Geometry GEOS_MULTIPOLYGON 2 [Some (unit_square 0 0), Some (unit_square 2 0)] []" 2
      "Fixnum (- 1)" "- 1" sample_collaborators]
  by (simp add: sample_collection_def GEOSGetNumGeometries_r_def clone_at_def
        sample_collaborators_def GEOSGetGeometryN_r_def NIL_P_def)

text \<open>
  C10. For an index \<open>i\<close> that \<^verbatim>\<open>NUM2INT\<close> accepts, \<^verbatim>\<open>impl_geometry_n\<close> without
  \<^verbatim>\<open>allow_negatives\<close> yields \<^verbatim>\<open>nil\<close> at a negative index, without normalising it,
  and agrees with \<^verbatim>\<open>impl_geometry_n\<close> with \<^verbatim>\<open>allow_negatives\<close> at an index that is
  not negative. Neither method returns what \<^verbatim>\<open>impl_geometry_n\<close> computes: both hand
  back no value, so they cannot be told apart by what they return.
\<close>

theorem geometry_n_returns_no_value:
  assumes "geom self = Some g" and "GEOSGetNumGeometries_r g = int n" and "NUM2INT v = Inr i"
  shows "(i < 0 \<longrightarrow> impl_geometry_n W self v 0 = Inr None)
       \<and> (0 \<le> i \<longrightarrow> impl_geometry_n W self v 0 = impl_geometry_n W self v 1)
       \<and> method_geometry_collection_geometry_n W self v = Inr No_return_value
       \<and> method_geometry_collection_brackets W self v = Inr No_return_value"
  using impl_geometry_n_no_negatives[OF assms, of W] impl_geometry_n_brackets[OF assms, of W]
  by (simp add: method_geometry_collection_geometry_n_def method_geometry_collection_brackets_def)

theorem geometry_n_returns_no_value_witness:
  "impl_geometry_n sample_collaborators sample_collection (Fixnum (- 1)) 0 = Inr None
   \<and> method_geometry_collection_geometry_n sample_collaborators sample_collection (Fixnum (- 1))
     = Inr No_return_value
   \<and> impl_geometry_n sample_collaborators sample_collection (Fixnum 0) 0
     = impl_geometry_n sample_collaborators sample_collection (Fixnum 0) 1
   \<and> method_geometry_collection_geometry_n sample_collaborators sample_collection (Fixnum 0)
     = Inr No_return_value
   \<and> method_geometry_collection_brackets sample_collaborators sample_collection (Fixnum 0)
     = Inr No_return_value"
  using geometry_n_returns_no_value[of sample_collection
      "Geometry GEOS_MULTIPOLYGON 2 [Some (unit_square 0 0), Some (unit_square 2 0)] []" 2
      "Fixnum (- 1)" "- 1" sample_collaborators]
    geometry_n_returns_no_value[of sample_collection
      "Geometry GEOS_MULTIPOLYGON 2 [Some (unit_square 0 0), Some (unit_square 2 0)] []" 2
      "Fixnum 0" 0 sample_collaborators]
  by (simp add: sample_collection_def GEOSGetNumGeometries_r_def)

section \<open>Properties of the closedness test\<close>

lemma is_closed_loop_unfold:
  "is_closed_loop W self_geom i len result
   = (if i < len then
        (if GEOSGetGeometryN_r self_geom i = None then
           is_closed_loop W self_geom (i + 1) len result
         else if rgeo_is_geos_line_string_closed W self_geom \<noteq> Qtrue then
           rgeo_is_geos_line_string_closed W self_geom
         else is_closed_loop W self_geom (i + 1) len Qtrue)
      else result)"
  by (subst is_closed_loop.simps) (auto simp: Let_def split: option.splits)

lemma is_closed_loop_result:
  "is_closed_loop W g i len result
   = (if \<exists>j. i \<le> j \<and> j < len \<and> GEOSGetGeometryN_r g j \<noteq> None
      then rgeo_is_geos_line_string_closed W g else result)"
proof (induction "nat (len - i)" arbitrary: i result)
  case 0
  then show ?case
    by (subst is_closed_loop_unfold) auto
next
  case (Suc n)
  then have lt: "i < len" by linarith
  have IH: "is_closed_loop W g (i + 1) len r
            = (if \<exists>j. i + 1 \<le> j \<and> j < len \<and> GEOSGetGeometryN_r g j \<noteq> None
               then rgeo_is_geos_line_string_closed W g else r)" for r
    using Suc.hyps(2) by (intro Suc.hyps(1)) auto
  show ?case
  proof (cases "GEOSGetGeometryN_r g i = None")
    case True
    have "(\<exists>j. i \<le> j \<and> j < len \<and> GEOSGetGeometryN_r g j \<noteq> None)
          \<longleftrightarrow> (\<exists>j. i + 1 \<le> j \<and> j < len \<and> GEOSGetGeometryN_r g j \<noteq> None)"
    proof
      assume "\<exists>j. i \<le> j \<and> j < len \<and> GEOSGetGeometryN_r g j \<noteq> None"
      then obtain j where j: "i \<le> j" "j < len" "GEOSGetGeometryN_r g j \<noteq> None" by blast
      with True have "j \<noteq> i" by auto
      with j have "i + 1 \<le> j" by simp
      with j show "\<exists>j. i + 1 \<le> j \<and> j < len \<and> GEOSGetGeometryN_r g j \<noteq> None" by blast
    next
      assume "\<exists>j. i + 1 \<le> j \<and> j < len \<and> GEOSGetGeometryN_r g j \<noteq> None"
      then obtain j where j: "i + 1 \<le> j" "j < len" "GEOSGetGeometryN_r g j \<noteq> None" by blast
      then have "i \<le> j" by simp
      with j show "\<exists>j. i \<le> j \<and> j < len \<and> GEOSGetGeometryN_r g j \<noteq> None" by blast
    qed
    with True lt IH show ?thesis
      by (subst is_closed_loop_unfold) simp
  next
    case False
    with lt have ex: "\<exists>j. i \<le> j \<and> j < len \<and> GEOSGetGeometryN_r g j \<noteq> None"
      by (intro exI[of _ i]) simp
    from False lt IH[of Qtrue] have "is_closed_loop W g i len result
                         = rgeo_is_geos_line_string_closed W g"
      by (subst is_closed_loop_unfold) auto
    with ex show ?thesis by simp
  qed
qed

text \<open>
  C5. The loop asks the collaborator about the collection handle, not about the member it
  has just fetched: when some member can be fetched, the method returns the collaborator's
  answer for the MultiLineString itself, whatever the members are; otherwise, and for zero
  members, it returns \<^verbatim>\<open>true\<close>.
\<close>

theorem is_closed_ignores_members:
  assumes "geom self = Some g"
  shows "method_multi_line_string_is_closed W self
         = (if \<exists>j. 0 \<le> j \<and> j < GEOSGetNumGeometries_r g \<and> GEOSGetGeometryN_r g j \<noteq> None
            then rgeo_is_geos_line_string_closed W g else Qtrue)"
  using assms
  by (auto simp: method_multi_line_string_is_closed_def Let_def is_closed_loop_result)

theorem is_closed_ignores_members_witness:
  "rgeo_is_geos_line_string_closed sample_collaborators closed_ring = Qtrue
   \<and> method_multi_line_string_is_closed sample_collaborators
       \<lparr> obj_class = Class ''MultiLineStringImpl'',
         geom = Some (Geometry GEOS_MULTILINESTRING 1 [Some closed_ring] []),
         factory = sample_factory 0, klasses = Qnil \<rparr>
     = Qfalse"
proof -
  let ?g = "Geometry GEOS_MULTILINESTRING 1 [Some closed_ring] []"
  have "\<exists>j. 0 \<le> j \<and> j < GEOSGetNumGeometries_r ?g \<and> GEOSGetGeometryN_r ?g j \<noteq> None"
    by (intro exI[of _ 0]) (simp add: GEOSGetNumGeometries_r_def GEOSGetGeometryN_r_def)
  then have "method_multi_line_string_is_closed sample_collaborators
       \<lparr> obj_class = Class ''MultiLineStringImpl'', geom = Some ?g,
         factory = sample_factory 0, klasses = Qnil \<rparr>
     = rgeo_is_geos_line_string_closed sample_collaborators ?g"
    by (subst is_closed_ignores_members[of _ ?g]) simp_all
  moreover have "rgeo_is_geos_line_string_closed sample_collaborators ?g = Qfalse"
    by (simp add: sample_collaborators_def sample_closed_def)
  moreover have "rgeo_is_geos_line_string_closed sample_collaborators closed_ring = Qtrue"
    by (simp add: sample_collaborators_def sample_closed_def closed_ring_def)
  ultimately show ?thesis by simp
qed

end
